theory Spec2Isabelle
  imports Complex_Main
begin

section \<open>Numbers and vectors\<close>

text \<open>
  JavaScript numbers are modelled as mathematical reals (\<open>real\<close>): rounding, infinities
  and NaN of IEEE doubles are outside the model.  Counters that the code only ever
  increments or decrements by one (bullet life, cooldown, health, score, spawn timer)
  are \<open>int\<close>.  A three-element array such as the result of \<open>_fwd()\<close> is a triple.
\<close>

type_synonym vec3 = "real \<times> real \<times> real"

definition dot :: "vec3 \<Rightarrow> vec3 \<Rightarrow> real" where
  "dot u v = (case u of (a, b, c) \<Rightarrow> case v of (d, e, f) \<Rightarrow> a * d + b * e + c * f)"

section \<open>camera.js\<close>

text \<open>
  The fields of class \<open>Camera\<close>.  \<open>eye[0]\<close>, \<open>eye[1]\<close>, \<open>eye[2]\<close> are the fields
  \<open>eye0\<close>, \<open>eye1\<close>, \<open>eye2\<close>.  The two \<open>Matrix4\<close> fields are left out: the view matrix
  is written by \<open>updateView\<close> only, which is modelled by the arguments it hands to
  \<open>setLookAt\<close>.
\<close>

record Camera =
  fov :: real
  speed :: real
  panAngle :: real
  eye0 :: real
  eye1 :: real
  eye2 :: real
  yaw :: real
  pitch :: real
  velY :: real
  grounded :: bool
  groundY :: real
  jumpForce :: real
  gravity :: real

text \<open>The constructor.\<close>

definition new_Camera :: Camera where
  "new_Camera =
     \<lparr> fov = 60, speed = 0.15, panAngle = 3,
       eye0 = 16, eye1 = 1.5, eye2 = 16,
       yaw = 0, pitch = 0,
       velY = 0, grounded = True, groundY = 1.5, jumpForce = 0.18, gravity = 0.012 \<rparr>"

text \<open>
  \<open>updateView\<close>: the nine arguments of \<open>viewMatrix.setLookAt\<close> as (eye, centre, up).
\<close>

definition updateView :: "Camera \<Rightarrow> vec3 \<times> vec3 \<times> vec3" where
  "updateView c =
     (let yawR = yaw c * pi / 180;
          pitchR = pitch c * pi / 180;
          cosPitch = cos pitchR;
          fx = cos yawR * cosPitch;
          fy = sin pitchR;
          fz = sin yawR * cosPitch
      in ((eye0 c, eye1 c, eye2 c),
          (eye0 c + fx, eye1 c + fy, eye2 c + fz),
          (0, 1, 0)))"

text \<open>The direction the look-at matrix looks along: centre minus eye.\<close>

definition lookDirection :: "vec3 \<times> vec3 \<times> vec3 \<Rightarrow> vec3" where
  "lookDirection a =
     (case a of ((ex, ey, ez), (cx, cy, cz), u) \<Rightarrow> (cx - ex, cy - ey, cz - ez))"

text \<open>\<open>_fwd()\<close> and \<open>_right()\<close>.\<close>

definition cam_fwd :: "Camera \<Rightarrow> vec3" where
  "cam_fwd c = (let r = yaw c * pi / 180 in (cos r, 0, sin r))"

definition cam_right :: "Camera \<Rightarrow> vec3" where
  "cam_right c = (let r = yaw c * pi / 180 in (sin r, 0, - cos r))"

definition moveForward :: "Camera \<Rightarrow> Camera" where
  "moveForward c =
     (case cam_fwd c of (f0, f1, f2) \<Rightarrow>
        c\<lparr>eye0 := eye0 c + f0 * speed c, eye2 := eye2 c + f2 * speed c\<rparr>)"

definition moveBackwards :: "Camera \<Rightarrow> Camera" where
  "moveBackwards c =
     (case cam_fwd c of (f0, f1, f2) \<Rightarrow>
        c\<lparr>eye0 := eye0 c - f0 * speed c, eye2 := eye2 c - f2 * speed c\<rparr>)"

definition moveLeft :: "Camera \<Rightarrow> Camera" where
  "moveLeft c =
     (case cam_right c of (r0, r1, r2) \<Rightarrow>
        c\<lparr>eye0 := eye0 c + r0 * speed c, eye2 := eye2 c + r2 * speed c\<rparr>)"

definition moveRight :: "Camera \<Rightarrow> Camera" where
  "moveRight c =
     (case cam_right c of (r0, r1, r2) \<Rightarrow>
        c\<lparr>eye0 := eye0 c - r0 * speed c, eye2 := eye2 c - r2 * speed c\<rparr>)"

definition jump :: "Camera \<Rightarrow> Camera" where
  "jump c = (if grounded c then c\<lparr>velY := jumpForce c, grounded := False\<rparr> else c)"

definition applyGravity :: "Camera \<Rightarrow> Camera" where
  "applyGravity c =
     (if \<not> grounded c then
        (let c1 = c\<lparr>velY := velY c - gravity c\<rparr>;
             c2 = c1\<lparr>eye1 := eye1 c1 + velY c1\<rparr>
         in if eye1 c2 \<le> groundY c2
            then c2\<lparr>eye1 := groundY c2, velY := 0, grounded := True\<rparr>
            else c2)
      else c)"

definition panLeft :: "Camera \<Rightarrow> Camera" where
  "panLeft c = c\<lparr>yaw := yaw c - panAngle c\<rparr>"

definition panRight :: "Camera \<Rightarrow> Camera" where
  "panRight c = c\<lparr>yaw := yaw c + panAngle c\<rparr>"

definition mouseRotate :: "real \<Rightarrow> real \<Rightarrow> Camera \<Rightarrow> Camera" where
  "mouseRotate dx dy c =
     (let SENS = 0.05;
          c1 = c\<lparr>yaw := yaw c + dx * SENS\<rparr>;
          c2 = c1\<lparr>pitch := pitch c1 - dy * SENS\<rparr>;
          c3 = (if pitch c2 > 89 then c2\<lparr>pitch := 89\<rparr> else c2);
          c4 = (if pitch c3 < - 89 then c3\<lparr>pitch := - 89\<rparr> else c3)
      in c4)"

text \<open>A finite sequence of \<open>mouseRotate\<close> calls, one per mouse-move event \<open>(dx, dy)\<close>.\<close>

fun mouseRotates :: "(real \<times> real) list \<Rightarrow> Camera \<Rightarrow> Camera" where
  "mouseRotates [] c = c"
| "mouseRotates ((dx, dy) # ms) c = mouseRotates ms (mouseRotate dx dy c)"

section \<open>gun.js and enemies.js: data\<close>

record Bullet =
  b_x :: real
  b_y :: real
  b_z :: real
  b_dx :: real
  b_dy :: real
  b_dz :: real
  b_life :: int

record Enemy =
  e_x :: real
  e_y :: real
  e_z :: real
  e_health :: int
  e_scale :: real
  e_bobTime :: real
  e_dead :: bool

text \<open>
  The module-level variables of main.js, gun.js and enemies.js that the update step
  reads and writes.  \<open>g_keys\<close> maps a key name to whether it is held; a key never
  pressed is \<open>undefined\<close> in the source, which is falsy, hence \<open>False\<close>.
\<close>

record Game =
  camera :: Camera
  g_keys :: "string \<Rightarrow> bool"
  g_bullets :: "Bullet list"
  g_shootCooldown :: int
  g_enemies :: "Enemy list"
  g_enemySpawnTimer :: int
  g_playerHealth :: real
  g_score :: int

definition BULLET_SPEED :: real where "BULLET_SPEED = 0.5"
definition BULLET_LIFE :: int where "BULLET_LIFE = 80"
definition SHOOT_COOLDOWN :: int where "SHOOT_COOLDOWN = 12"
definition ENEMY_SPEED :: real where "ENEMY_SPEED = 0.02"
definition ENEMY_SPAWN_RATE :: int where "ENEMY_SPAWN_RATE = 180"
definition ENEMY_MAX :: nat where "ENEMY_MAX = 20"
definition ENEMY_DAMAGE_DIST :: real where "ENEMY_DAMAGE_DIST = 1.2"

section \<open>gun.js\<close>

text \<open>The object literal that \<open>shoot\<close> pushes.\<close>

definition newBullet :: "Camera \<Rightarrow> Bullet" where
  "newBullet cam =
     (let yawR = yaw cam * pi / 180;
          pitchR = pitch cam * pi / 180;
          cp = cos pitchR;
          dx = cos yawR * cp;
          dy = sin pitchR;
          dz = sin yawR * cp
      in \<lparr> b_x = eye0 cam + dx * 0.5, b_y = eye1 cam + dy * 0.5, b_z = eye2 cam + dz * 0.5,
           b_dx = dx * BULLET_SPEED, b_dy = dy * BULLET_SPEED, b_dz = dz * BULLET_SPEED,
           b_life = BULLET_LIFE \<rparr>)"

definition shoot :: "Camera \<Rightarrow> Game \<Rightarrow> Game" where
  "shoot cam s =
     (if g_shootCooldown s > 0 then s
      else s\<lparr>g_shootCooldown := SHOOT_COOLDOWN,
             g_bullets := g_bullets s @ [newBullet cam]\<rparr>)"

text \<open>The body of the \<open>for\<close> loop of \<open>updateBullets\<close>, for one bullet.\<close>

definition advanceBullet :: "Bullet \<Rightarrow> Bullet" where
  "advanceBullet b =
     b\<lparr>b_x := b_x b + b_dx b, b_y := b_y b + b_dy b, b_z := b_z b + b_dz b,
       b_life := b_life b - 1\<rparr>"

definition updateBullets :: "Game \<Rightarrow> Game" where
  "updateBullets s =
     (let s1 = (if g_shootCooldown s > 0
                then s\<lparr>g_shootCooldown := g_shootCooldown s - 1\<rparr> else s);
          s2 = s1\<lparr>g_bullets := map advanceBullet (g_bullets s1)\<rparr>
      in s2\<lparr>g_bullets := filter (\<lambda>b. b_life b > 0) (g_bullets s2)\<rparr>)"

definition initGun :: "Game \<Rightarrow> Game" where
  "initGun s = s\<lparr>g_bullets := [], g_shootCooldown := 0\<rparr>"

text \<open>
  A run of the gun: calls of \<open>shoot\<close> (each with the camera of that moment) and calls
  of \<open>updateBullets\<close>, in the order they happen.
\<close>

datatype gun_call = Fire Camera | Advance

fun gunRun :: "gun_call list \<Rightarrow> Game \<Rightarrow> Game" where
  "gunRun [] s = s"
| "gunRun (Fire cam # cs) s = gunRun cs (shoot cam s)"
| "gunRun (Advance # cs) s = gunRun cs (updateBullets s)"

fun advances :: "gun_call list \<Rightarrow> nat" where
  "advances [] = 0"
| "advances (Fire cam # cs) = advances cs"
| "advances (Advance # cs) = Suc (advances cs)"

section \<open>enemies.js\<close>

abbreviation live :: "Enemy \<Rightarrow> bool" where
  "live e \<equiv> \<not> e_dead e"

text \<open>
  \<open>spawnEnemy\<close> calls \<open>Math.random()\<close> three times: for the edge, for the place along
  it, and for the bob phase.  The three results are the parameter \<open>(r1, r2, r3)\<close>.
\<close>

definition spawnEnemy :: "real \<times> real \<times> real \<Rightarrow> Game \<Rightarrow> Game" where
  "spawnEnemy rnd s =
     (case rnd of (r1, r2, r3) \<Rightarrow>
        (let edge = \<lfloor>r1 * 4\<rfloor>;
             (x, z) = (if edge = 0 then (1 + r2 * 30, 1)
                       else if edge = 1 then (1 + r2 * 30, 30)
                       else if edge = 2 then (1, 1 + r2 * 30)
                       else (30, 1 + r2 * 30))
         in s\<lparr>g_enemies := g_enemies s @
                [\<lparr> e_x = x, e_y = 0.5, e_z = z, e_health = 2, e_scale = 0.6,
                   e_bobTime = r3 * pi * 2, e_dead = False \<rparr>]\<rparr>))"

definition initEnemies :: "real \<times> real \<times> real \<Rightarrow> Game \<Rightarrow> Game" where
  "initEnemies rnd s =
     spawnEnemy rnd (s\<lparr>g_enemies := [], g_playerHealth := 100, g_score := 0\<rparr>)"

text \<open>
  The body of the \<open>for\<close> loop of \<open>updateEnemies\<close> for one enemy: the enemy and the
  player's health go in, and come out updated.
\<close>

definition enemyStep :: "real \<Rightarrow> real \<Rightarrow> Enemy \<Rightarrow> real \<Rightarrow> Enemy \<times> real" where
  "enemyStep px pz e hp =
     (if e_dead e then (e, hp)
      else
        (let dx = px - e_x e;
             dz = pz - e_z e;
             dist = sqrt (dx * dx + dz * dz);
             e1 = (if dist > 0.01
                   then e\<lparr>e_x := e_x e + (dx / dist) * ENEMY_SPEED,
                          e_z := e_z e + (dz / dist) * ENEMY_SPEED\<rparr>
                   else e);
             e2 = e1\<lparr>e_bobTime := e_bobTime e1 + 0.08\<rparr>;
             e3 = e2\<lparr>e_y := 0.5 + \<bar>sin (e_bobTime e2)\<bar> * 0.15\<rparr>;
             hp1 = (if dist < ENEMY_DAMAGE_DIST
                    then (let h = hp - 0.15 in if h < 0 then 0 else h)
                    else hp)
         in (e3, hp1)))"

text \<open>The \<open>for\<close> loop itself, over the enemies in list order.\<close>

fun enemiesLoop :: "real \<Rightarrow> real \<Rightarrow> Enemy list \<Rightarrow> real \<Rightarrow> Enemy list \<times> real" where
  "enemiesLoop px pz [] hp = ([], hp)"
| "enemiesLoop px pz (e # es) hp =
     (case enemyStep px pz e hp of (e', hp') \<Rightarrow>
        (case enemiesLoop px pz es hp' of (es', hp'') \<Rightarrow> (e' # es', hp'')))"

text \<open>The spawn timer at the head of \<open>updateEnemies\<close> (lines 273 to 277).\<close>

definition spawnTimerStep :: "real \<times> real \<times> real \<Rightarrow> Game \<Rightarrow> Game" where
  "spawnTimerStep rnd s =
     (let s1 = s\<lparr>g_enemySpawnTimer := g_enemySpawnTimer s + 1\<rparr>
      in if g_enemySpawnTimer s1 \<ge> ENEMY_SPAWN_RATE
         then (let s' = s1\<lparr>g_enemySpawnTimer := 0\<rparr>
               in if length (g_enemies s') < ENEMY_MAX then spawnEnemy rnd s' else s')
         else s1)"

definition updateEnemies :: "Camera \<Rightarrow> real \<times> real \<times> real \<Rightarrow> Game \<Rightarrow> Game" where
  "updateEnemies cam rnd s =
     (let px = eye0 cam;
          pz = eye2 cam;
          s2 = spawnTimerStep rnd s;
          (es, hp) = enemiesLoop px pz (g_enemies s2) (g_playerHealth s2);
          s3 = s2\<lparr>g_enemies := es, g_playerHealth := hp\<rparr>
      in s3\<lparr>g_enemies := filter (\<lambda>e. \<not> e_dead e) (g_enemies s3)\<rparr>)"

text \<open>The test of line 365: is the bullet within the enemy's radius?\<close>

definition inRange :: "Bullet \<Rightarrow> Enemy \<Rightarrow> bool" where
  "inRange bullet en =
     (let dx = b_x bullet - e_x en;
          dz = b_z bullet - e_z en;
          dy = b_y bullet - e_y en
      in sqrt (dx * dx + dy * dy + dz * dz) < e_scale en + 0.3)"

text \<open>
  What a hit does to the enemy and the score (lines 366 to 371).  The call
  \<open>playSound('enemy_die')\<close> changes neither and is left out.
\<close>

definition damage :: "Enemy \<Rightarrow> int \<Rightarrow> Enemy \<times> int" where
  "damage en sc =
     (let en1 = en\<lparr>e_health := e_health en - 1\<rparr>
      in if e_health en1 \<le> 0 then (en1\<lparr>e_dead := True\<rparr>, sc + 10) else (en1, sc))"

text \<open>
  The inner loop of \<open>checkBulletHits\<close> for one bullet: it walks the enemies in order,
  skips the dead ones, damages the first one in range and stops there.  It returns the
  enemies, the score and the flag \<open>hit\<close>.
\<close>

fun hitScan :: "Bullet \<Rightarrow> Enemy list \<Rightarrow> int \<Rightarrow> Enemy list \<times> int \<times> bool" where
  "hitScan bullet [] sc = ([], sc, False)"
| "hitScan bullet (en # es) sc =
     (if e_dead en then
        (case hitScan bullet es sc of (es', sc', hit) \<Rightarrow> (en # es', sc', hit))
      else if inRange bullet en then
        (case damage en sc of (en', sc') \<Rightarrow> (en' # es, sc', True))
      else
        (case hitScan bullet es sc of (es', sc', hit) \<Rightarrow> (en # es', sc', hit)))"

text \<open>The outer loop: the surviving bullets, the enemies and the score.\<close>

fun bulletsLoop :: "Bullet list \<Rightarrow> Enemy list \<Rightarrow> int \<Rightarrow> Bullet list \<times> Enemy list \<times> int" where
  "bulletsLoop [] es sc = ([], es, sc)"
| "bulletsLoop (bullet # bs) es sc =
     (case hitScan bullet es sc of (es1, sc1, hit) \<Rightarrow>
        (case bulletsLoop bs es1 sc1 of (surviving, es2, sc2) \<Rightarrow>
           ((if \<not> hit then bullet # surviving else surviving), es2, sc2)))"

definition checkBulletHits :: "Bullet list \<Rightarrow> Game \<Rightarrow> Bullet list \<times> Game" where
  "checkBulletHits bullets s =
     (case bulletsLoop bullets (g_enemies s) (g_score s) of
        (surviving, es, sc) \<Rightarrow> (surviving, s\<lparr>g_enemies := es, g_score := sc\<rparr>))"

text \<open>
  \<open>drawEnemies\<close>.  A \<open>Matrix4\<close> is the sequence of operations that built it (the
  class itself is in lib/cuon-matrix.js); \<open>m.set(_eBase)\<close> copies that sequence.  A call
  \<open>_ss(gl, m, colour, g_sheepCubeData)\<close> issues one \<open>drawElements\<close> for the cube with
  model matrix \<open>m\<close> and that colour, and is recorded as \<open>SS m colour\<close>.  The parameter
  \<open>prog\<close> says whether \<open>g_sheepProgram\<close> is set.
\<close>

datatype mat_op =
  SetTranslate real real real
| Translate real real real
| Rotate real real real real
| Scale real real real

datatype ss_call = SS "mat_op list" vec3

definition eRed :: vec3 where "eRed = (0.85, 0.12, 0.12)"
definition eOrange :: vec3 where "eOrange = (0.9, 0.45, 0.1)"
definition eDark :: vec3 where "eDark = (0.06, 0.04, 0.04)"

text \<open>The body of the \<open>for\<close> loop of \<open>drawEnemies\<close> after the test of \<open>e.dead\<close>.\<close>

definition drawEnemy :: "Enemy \<Rightarrow> ss_call list" where
  "drawEnemy e =
     (let sc = e_scale e;
          bodyColor = (if e_health e > 1 then eRed else eOrange);
          spin = e_bobTime e * 30;
          eBase = [SetTranslate (e_x e) (e_y e) (e_z e), Rotate spin 0 1 0];
          f = sc
      in [ SS (eBase @ [Scale sc sc sc]) bodyColor,
           SS (eBase @ [Translate (- f * 0.22) (f * 0.15) (f * 0.52),
                        Scale (f * 0.14) (f * 0.14) (f * 0.06)]) eDark,
           SS (eBase @ [Translate (f * 0.22) (f * 0.15) (f * 0.52),
                        Scale (f * 0.14) (f * 0.14) (f * 0.06)]) eDark,
           SS (eBase @ [Translate (- f * 0.22) (f * 0.38) (f * 0.52),
                        Rotate (- 25) 0 0 1,
                        Scale (f * 0.22) (f * 0.07) (f * 0.06)]) eDark,
           SS (eBase @ [Translate (f * 0.22) (f * 0.38) (f * 0.52),
                        Rotate 25 0 0 1,
                        Scale (f * 0.22) (f * 0.07) (f * 0.06)]) eDark,
           SS (eBase @ [Translate (- f * 0.14) (- f * 0.22) (f * 0.52),
                        Rotate 18 0 0 1,
                        Scale (f * 0.18) (f * 0.07) (f * 0.06)]) eDark,
           SS (eBase @ [Translate (f * 0.14) (- f * 0.22) (f * 0.52),
                        Rotate (- 18) 0 0 1,
                        Scale (f * 0.18) (f * 0.07) (f * 0.06)]) eDark ])"

fun drawEnemiesLoop :: "Enemy list \<Rightarrow> ss_call list" where
  "drawEnemiesLoop [] = []"
| "drawEnemiesLoop (e # es) =
     (if e_dead e then drawEnemiesLoop es else drawEnemy e @ drawEnemiesLoop es)"

definition drawEnemies :: "bool \<Rightarrow> Game \<Rightarrow> ss_call list" where
  "drawEnemies prog s = (if \<not> prog then [] else drawEnemiesLoop (g_enemies s))"

section \<open>main.js: the update step of a frame\<close>

text \<open>The initial value \<open>{}\<close> of \<open>g_keys\<close>: no key is held.\<close>

definition keys_none :: "string \<Rightarrow> bool" where
  "keys_none k = False"

text \<open>
  \<open>_handleKeys\<close>, one definition per kind of \<open>if\<close> statement: \<open>keyMove\<close> for the six
  keys that call a camera method, \<open>keyJump\<close> for the space bar, \<open>keyShoot\<close> for F and
  \<open>keyBlock\<close> for T and Y.  T and Y call \<open>addBlock\<close>, \<open>removeBlock\<close> and
  \<open>rebuildBatches\<close> of world.js, which touch the block map and the wall batches only;
  here they only release the key.  \<open>playSound\<close> changes no variable of the record.
\<close>

definition keyMove :: "string \<Rightarrow> (Camera \<Rightarrow> Camera) \<Rightarrow> Game \<Rightarrow> Game" where
  "keyMove k method s = (if g_keys s k then s\<lparr>camera := method (camera s)\<rparr> else s)"

definition keyJump :: "Game \<Rightarrow> Game" where
  "keyJump s =
     (if g_keys s '' ''
      then s\<lparr>camera := jump (camera s), g_keys := (g_keys s)('' '' := False)\<rparr>
      else s)"

definition keyShoot :: "Game \<Rightarrow> Game" where
  "keyShoot s =
     (if g_keys s ''f''
      then (let t = shoot (camera s) s in t\<lparr>g_keys := (g_keys t)(''f'' := False)\<rparr>)
      else s)"

definition keyBlock :: "string \<Rightarrow> Game \<Rightarrow> Game" where
  "keyBlock k s = (if g_keys s k then s\<lparr>g_keys := (g_keys s)(k := False)\<rparr> else s)"

definition handleKeys :: "Game \<Rightarrow> Game" where
  "handleKeys s =
     (let s1 = keyMove ''w'' moveForward s;
          s2 = keyMove ''s'' moveBackwards s1;
          s3 = keyMove ''a'' moveLeft s2;
          s4 = keyMove ''d'' moveRight s3;
          s5 = keyMove ''q'' panLeft s4;
          s6 = keyMove ''e'' panRight s5;
          s7 = keyJump s6;
          s8 = keyShoot s7;
          s9 = keyBlock ''t'' s8;
          s10 = keyBlock ''y'' s9
      in s10)"

text \<open>
  \<open>tick\<close>, from \<open>_handleKeys()\<close> to \<open>setBullets(checkBulletHits(getBullets()))\<close>.  The
  frame counter, the walk sound, \<open>renderScene\<close> and the HUD write none of the
  variables of the record.  \<open>rnd\<close> holds the random numbers a spawn in this frame draws.
\<close>

definition tick :: "real \<times> real \<times> real \<Rightarrow> Game \<Rightarrow> Game" where
  "tick rnd s =
     (let s1 = handleKeys s;
          s2 = s1\<lparr>camera := applyGravity (camera s1)\<rparr>;
          s3 = updateBullets s2;
          s4 = updateEnemies (camera s3) rnd s3
      in case checkBulletHits (g_bullets s4) s4 of
           (surviving, s5) \<Rightarrow> s5\<lparr>g_bullets := surviving\<rparr>)"

text \<open>
  The state \<open>main\<close> sets up before the first frame: the initial values of the module
  variables, \<open>new Camera()\<close>, \<open>initEnemies()\<close> and \<open>initGun()\<close>.
\<close>

definition main_init :: "real \<times> real \<times> real \<Rightarrow> Game" where
  "main_init rnd =
     initGun (initEnemies rnd
       \<lparr> camera = new_Camera, g_keys = keys_none, g_bullets = [], g_shootCooldown = 0,
         g_enemies = [], g_enemySpawnTimer = 0, g_playerHealth = 100, g_score = 0 \<rparr>)"

section \<open>cube.js: CubeBatch\<close>

text \<open>
  The WebGL context is a log of the calls made on it, with a counter for buffer
  handles: \<open>gl.createBuffer()\<close> returns a fresh handle (the context is live).
  Attribute and uniform locations are named by their field in \<open>locs\<close>.
\<close>

datatype gl_call =
  CreateBuffer nat
| DeleteBuffer nat
| BindBuffer nat
| BufferData "real list"
| VertexAttribPointer string nat nat nat
| EnableVertexAttribArray string
| UniformMatrix4fv string "real list"
| Uniform4fv string "real list"
| Uniform1f string real
| Uniform1i string int
| DrawArrays nat nat

record GL =
  gl_fresh :: nat
  gl_calls :: "gl_call list"

definition gl_do :: "gl_call list \<Rightarrow> GL \<Rightarrow> GL" where
  "gl_do cs gl = gl\<lparr>gl_calls := gl_calls gl @ cs\<rparr>"

definition createBuffer :: "GL \<Rightarrow> nat \<times> GL" where
  "createBuffer gl =
     (gl_fresh gl, gl\<lparr>gl_fresh := gl_fresh gl + 1,
                      gl_calls := gl_calls gl @ [CreateBuffer (gl_fresh gl)]\<rparr>)"

text \<open>\<open>_buildCubeVerts\<close>: 36 vertices of 5 floats.\<close>

definition buildCubeVerts :: "real list" where
  "buildCubeVerts =
    [ -0.5,-0.5, 0.5, 0,0,  0.5,-0.5, 0.5, 1,0,  0.5, 0.5, 0.5, 1,1,
      -0.5,-0.5, 0.5, 0,0,  0.5, 0.5, 0.5, 1,1, -0.5, 0.5, 0.5, 0,1,
       0.5,-0.5,-0.5, 0,0, -0.5,-0.5,-0.5, 1,0, -0.5, 0.5,-0.5, 1,1,
       0.5,-0.5,-0.5, 0,0, -0.5, 0.5,-0.5, 1,1,  0.5, 0.5,-0.5, 0,1,
      -0.5,-0.5,-0.5, 0,0, -0.5,-0.5, 0.5, 1,0, -0.5, 0.5, 0.5, 1,1,
      -0.5,-0.5,-0.5, 0,0, -0.5, 0.5, 0.5, 1,1, -0.5, 0.5,-0.5, 0,1,
       0.5,-0.5, 0.5, 0,0,  0.5,-0.5,-0.5, 1,0,  0.5, 0.5,-0.5, 1,1,
       0.5,-0.5, 0.5, 0,0,  0.5, 0.5,-0.5, 1,1,  0.5, 0.5, 0.5, 0,1,
      -0.5, 0.5, 0.5, 0,0,  0.5, 0.5, 0.5, 1,0,  0.5, 0.5,-0.5, 1,1,
      -0.5, 0.5, 0.5, 0,0,  0.5, 0.5,-0.5, 1,1, -0.5, 0.5,-0.5, 0,1,
      -0.5,-0.5,-0.5, 0,0,  0.5,-0.5,-0.5, 1,0,  0.5,-0.5, 0.5, 1,1,
      -0.5,-0.5,-0.5, 0,0,  0.5,-0.5, 0.5, 1,1, -0.5,-0.5, 0.5, 0,1 ]"

text \<open>
  The module variables \<open>_cubeVBO\<close> and \<open>_cubeData\<close>, both \<open>null\<close> (\<open>None\<close>) until
  \<open>initCubeBuffer\<close> has run.
\<close>

record CubeModule =
  cubeVBO :: "nat option"
  cubeData :: "real list option"

definition initCubeBuffer :: "CubeModule \<Rightarrow> GL \<Rightarrow> CubeModule \<times> GL" where
  "initCubeBuffer m gl =
     (case createBuffer gl of (h, gl1) \<Rightarrow>
        (\<lparr> cubeVBO = Some h, cubeData = Some buildCubeVerts \<rparr>,
         gl_do [BindBuffer h, BufferData buildCubeVerts] gl1))"

record CubeDesc =
  tx :: real
  ty :: real
  tz :: real
  sx :: real
  sy :: real
  sz :: real
  d_texNum :: int

record CubeBatch =
  vbo :: "nat option"
  vertCount :: nat
  texNum :: int

definition new_CubeBatch :: CubeBatch where
  "new_CubeBatch = \<lparr> vbo = None, vertCount = 0, texNum = 0 \<rparr>"

datatype js_error = TypeError

text \<open>
  The inner loop of \<open>build\<close> for one cube: the 36 template vertices, scaled and
  translated, five floats each, in the order they are written to \<open>buf\<close>.
\<close>

definition bakeCube :: "real list \<Rightarrow> CubeDesc \<Rightarrow> real list" where
  "bakeCube T d =
     concat (map (\<lambda>v. let i = v * 5
                       in [T ! i * sx d + tx d,
                           T ! (i + 1) * sy d + ty d,
                           T ! (i + 2) * sz d + tz d,
                           T ! (i + 3),
                           T ! (i + 4)]) [0..<36])"

text \<open>
  \<open>build\<close>.  Reading \<open>T[i]\<close> when \<open>_cubeData\<close> is still \<open>null\<close> throws a TypeError; that
  happens as soon as the loop runs once.  \<open>buf\<close> has \<open>cubeDescs.length * 36 * 5\<close> slots
  and the loops fill them in order, so it is the concatenation of the baked cubes.
\<close>

definition build :: "CubeModule \<Rightarrow> CubeDesc list \<Rightarrow> int \<Rightarrow> CubeBatch \<Rightarrow> GL \<Rightarrow> js_error + (CubeBatch \<times> GL)" where
  "build m cubeDescs tex b gl =
     (let b1 = b\<lparr>texNum := tex\<rparr> in
      case (case cubeData m of
              None \<Rightarrow> (if cubeDescs = [] then Inr [] else Inl TypeError)
            | Some T \<Rightarrow> Inr (concat (map (bakeCube T) cubeDescs))) of
        Inl err \<Rightarrow> Inl err
      | Inr buf \<Rightarrow>
          (let gl1 = (case vbo b1 of Some old \<Rightarrow> gl_do [DeleteBuffer old] gl | None \<Rightarrow> gl)
           in case createBuffer gl1 of (h, gl2) \<Rightarrow>
                (let b2 = b1\<lparr>vbo := Some h\<rparr>;
                     b3 = b2\<lparr>vertCount := length cubeDescs * 36\<rparr>
                 in Inr (b3, gl_do [BindBuffer h, BufferData buf] gl2))))"

definition identityElements :: "real list" where
  "identityElements = [1,0,0,0, 0,1,0,0, 0,0,1,0, 0,0,0,1]"

definition white4 :: "real list" where
  "white4 = [1,1,1,1]"

text \<open>\<open>draw\<close>: the calls it makes on the context, none when it returns early.\<close>

definition drawCalls :: "CubeBatch \<Rightarrow> gl_call list" where
  "drawCalls b =
     (case vbo b of
        None \<Rightarrow> []
      | Some h \<Rightarrow>
          if vertCount b = 0 then []
          else (let F = 4; STRIDE = F * 5
                in [ BindBuffer h,
                     VertexAttribPointer ''a_Position'' 3 STRIDE 0,
                     EnableVertexAttribArray ''a_Position'',
                     VertexAttribPointer ''a_UV'' 2 STRIDE (F * 3),
                     EnableVertexAttribArray ''a_UV'',
                     UniformMatrix4fv ''u_ModelMatrix'' identityElements,
                     Uniform4fv ''u_baseColor'' white4,
                     Uniform1f ''u_texColorWeight'' 1.0,
                     Uniform1i ''u_whichTexture'' (texNum b),
                     DrawArrays 0 (vertCount b) ]))"

definition draw :: "CubeBatch \<Rightarrow> GL \<Rightarrow> GL" where
  "draw b gl = gl_do (drawCalls b) gl"

text \<open>The vertices a list of calls asks the context to draw, one entry per draw call.\<close>

fun drawnVertices :: "gl_call list \<Rightarrow> nat list" where
  "drawnVertices [] = []"
| "drawnVertices (DrawArrays first n # cs) = n # drawnVertices cs"
| "drawnVertices (c # cs) = drawnVertices cs"

section \<open>The camera\<close>

lemma mouseRotate_pitch:
  "- 89 \<le> pitch (mouseRotate dx dy c) \<and> pitch (mouseRotate dx dy c) \<le> 89"
  by (simp add: mouseRotate_def Let_def)

text \<open>
  Claim C6.  From a pitch in [-89, 89], any finite sequence of \<open>mouseRotate\<close> calls
  with any deltas leaves the pitch in [-89, 89].  The list \<open>ms\<close> is arbitrary, so the
  bound holds after every call of the sequence (\<open>mouseRotate_pitch\<close>: each single call
  clamps).
\<close>

theorem pitch_stays_clamped:
  "- 89 \<le> pitch c \<and> pitch c \<le> 89 \<Longrightarrow>
     - 89 \<le> pitch (mouseRotates ms c) \<and> pitch (mouseRotates ms c) \<le> 89"
proof (induction ms arbitrary: c)
  case Nil
  then show ?case by simp
next
  case (Cons m ms)
  obtain dx dy where m: "m = (dx, dy)" by (cases m)
  show ?case unfolding m mouseRotates.simps
    by (rule Cons.IH) (rule mouseRotate_pitch)
qed

theorem pitch_stays_clamped_witness:
  "(- 89 \<le> pitch new_Camera \<and> pitch new_Camera \<le> 89) \<and>
   (- 89 \<le> pitch (mouseRotates [(0, - 4000), (10, 100000)] new_Camera) \<and>
    pitch (mouseRotates [(0, - 4000), (10, 100000)] new_Camera) \<le> 89) \<and>
   pitch (mouseRotates [(0, - 4000), (10, 100000)] new_Camera) = - 89"
  using pitch_stays_clamped [of new_Camera "[(0, - 4000), (10, 100000)]"]
  by (simp add: new_Camera_def mouseRotate_def Let_def)

text \<open>
  Claim C7.  With the yaw \<open>\<theta>\<close> and the pitch \<open>\<phi>\<close> in degrees (the code converts them to
  radians), the direction \<open>updateView\<close> looks along is
  \<open>(cos \<theta> * cos \<phi>, sin \<phi>, sin \<theta> * cos \<phi>)\<close>, \<open>_right()\<close> is \<open>(sin \<theta>, 0, - cos \<theta>)\<close>, and
  \<open>_right()\<close> is perpendicular to the horizontal forward vector \<open>_fwd()\<close>
  \<open>= (cos \<theta>, 0, sin \<theta>)\<close> and to world-up \<open>(0, 1, 0)\<close>.  This holds for every pitch, in
  particular for those in [-89, 89].
\<close>

theorem look_and_right_directions:
  "lookDirection (updateView c) =
     (cos (yaw c * pi / 180) * cos (pitch c * pi / 180),
      sin (pitch c * pi / 180),
      sin (yaw c * pi / 180) * cos (pitch c * pi / 180))
   \<and> cam_right c = (sin (yaw c * pi / 180), 0, - cos (yaw c * pi / 180))
   \<and> cam_fwd c = (cos (yaw c * pi / 180), 0, sin (yaw c * pi / 180))
   \<and> dot (cam_right c) (cam_fwd c) = 0
   \<and> dot (cam_right c) (0, 1, 0) = 0"
  by (simp add: lookDirection_def updateView_def cam_right_def cam_fwd_def dot_def Let_def)

section \<open>The gun\<close>

lemma main_init_cooldown: "g_shootCooldown (main_init rnd) = 0"
  by (simp add: main_init_def initGun_def)




lemma updateBullets_bullets:
  "g_bullets (updateBullets s) = filter (\<lambda>b. 0 < b_life b) (map advanceBullet (g_bullets s))"
  by (simp add: updateBullets_def Let_def)




lemma shoot_noop: "0 < g_shootCooldown s \<Longrightarrow> shoot cam s = s"
  by (simp add: shoot_def)

lemma shoot_fires:
  "g_shootCooldown s \<le> 0 \<Longrightarrow>
     g_shootCooldown (shoot cam s) = 12 \<and> g_bullets (shoot cam s) = g_bullets s @ [newBullet cam]"
  by (simp add: shoot_def SHOOT_COOLDOWN_def)

lemma updateBullets_cooldown:
  "g_shootCooldown (updateBullets s) =
     (if 0 < g_shootCooldown s then g_shootCooldown s - 1 else g_shootCooldown s)"
  by (simp add: updateBullets_def Let_def)

lemma gunRun_cooldown:
  "int (advances cs) < g_shootCooldown s \<Longrightarrow>
     g_shootCooldown (gunRun cs s) = g_shootCooldown s - int (advances cs)"
proof (induction cs s rule: gunRun.induct)
  case (1 s)
  show ?case by simp
next
  case (2 cam cs s)
  then show ?case by (simp add: shoot_noop)
next
  case (3 cs s)
  then show ?case by (simp add: updateBullets_cooldown)
qed

lemma gunRun_append: "gunRun (cs @ ds) s = gunRun ds (gunRun cs s)"
  by (induction cs s rule: gunRun.induct) simp_all

text \<open>
  Claim C5.  After a successful \<open>shoot\<close> (it appends the bullet and sets the cooldown to
  12), consider any run \<open>cs\<close> of further \<open>shoot\<close> and \<open>updateBullets\<close> calls.  While the
  run holds fewer than 12 advances the cooldown is 12 minus their number, and a \<open>shoot\<close>
  then returns the state unchanged: no bullet, no other change.  The 12th advance brings
  the cooldown to 0, and the next \<open>shoot\<close> appends a bullet again.  In any state, \<open>shoot\<close>
  is a no-op exactly when the cooldown is positive.
\<close>

theorem shoot_cooldown_window:
  assumes "g_shootCooldown s \<le> 0"
  shows "g_bullets (shoot cam s) = g_bullets s @ [newBullet cam]
     \<and> g_shootCooldown (shoot cam s) = 12
     \<and> (\<forall>cs cam'. advances cs < 12 \<longrightarrow>
           g_shootCooldown (gunRun cs (shoot cam s)) = 12 - int (advances cs) \<and>
           shoot cam' (gunRun cs (shoot cam s)) = gunRun cs (shoot cam s))
     \<and> (\<forall>cs cam'. advances cs = 11 \<longrightarrow>
           g_shootCooldown (gunRun (cs @ [Advance]) (shoot cam s)) = 0 \<and>
           g_bullets (shoot cam' (gunRun (cs @ [Advance]) (shoot cam s))) =
             g_bullets (gunRun (cs @ [Advance]) (shoot cam s)) @ [newBullet cam'])
     \<and> (\<forall>t cam'. shoot cam' t = t \<longleftrightarrow> 0 < g_shootCooldown t)"
proof -
  let ?s = "shoot cam s"
  have cd: "g_shootCooldown ?s = 12" and bl: "g_bullets ?s = g_bullets s @ [newBullet cam]"
    using shoot_fires [OF assms] by simp_all
  have win: "g_shootCooldown (gunRun cs ?s) = 12 - int (advances cs)" if "advances cs < 12" for cs
    using gunRun_cooldown [of cs ?s] that by (simp add: cd)
  have noop: "shoot cam' (gunRun cs ?s) = gunRun cs ?s" if "advances cs < 12" for cs cam'
    using win [OF that] that by (simp add: shoot_noop)
  have zero: "g_shootCooldown (gunRun (cs @ [Advance]) ?s) = 0" if "advances cs = 11" for cs
    using win [of cs] that by (simp add: gunRun_append updateBullets_cooldown)
  have again: "g_bullets (shoot cam' (gunRun (cs @ [Advance]) ?s)) =
             g_bullets (gunRun (cs @ [Advance]) ?s) @ [newBullet cam']"
    if "advances cs = 11" for cs cam'
    using zero [OF that] by (simp add: shoot_fires)
  have iff: "shoot cam' t = t \<longleftrightarrow> 0 < g_shootCooldown t" for t cam'
  proof
    assume eq: "shoot cam' t = t"
    show "0 < g_shootCooldown t"
    proof (rule ccontr)
      assume "\<not> 0 < g_shootCooldown t"
      then have "g_bullets (shoot cam' t) = g_bullets t @ [newBullet cam']"
        by (simp add: shoot_fires)
      with eq show False by simp
    qed
  qed (rule shoot_noop)
  show ?thesis using cd bl win noop zero again iff by blast
qed

theorem shoot_cooldown_window_witness:
  "g_shootCooldown (main_init (0, 0, 0)) \<le> 0
   \<and> shoot new_Camera
       (gunRun [Advance, Fire new_Camera, Advance] (shoot new_Camera (main_init (0, 0, 0))))
       = gunRun [Advance, Fire new_Camera, Advance] (shoot new_Camera (main_init (0, 0, 0)))"
proof -
  have h: "g_shootCooldown (main_init (0, 0, 0)) \<le> 0"
    by (simp add: main_init_cooldown)
  have "advances [Advance, Fire new_Camera, Advance] < 12" by simp
  with shoot_cooldown_window [OF h, of new_Camera] h show ?thesis by blast
qed

section \<open>Hit resolution\<close>

lemma damage_cases:
  "damage en sc =
     (if e_health en \<le> 1
      then (en\<lparr>e_health := e_health en - 1, e_dead := True\<rparr>, sc + 10)
      else (en\<lparr>e_health := e_health en - 1\<rparr>, sc))"
  by (simp add: damage_def Let_def)

lemma hitScan_Cons:
  "hitScan b (en # es) sc =
     (if e_dead en \<or> \<not> inRange b en
      then (en # fst (hitScan b es sc), snd (hitScan b es sc))
      else (fst (damage en sc) # es, snd (damage en sc), True))"
  by (simp add: case_prod_beta)

lemma bulletsLoop_Cons:
  "bulletsLoop (b # bs) es sc =
     ((if snd (snd (hitScan b es sc)) then [] else [b]) @
        fst (bulletsLoop bs (fst (hitScan b es sc)) (fst (snd (hitScan b es sc)))),
      snd (bulletsLoop bs (fst (hitScan b es sc)) (fst (snd (hitScan b es sc)))))"
  by (simp add: case_prod_beta)

lemma hitScan_length: "length (fst (hitScan b es sc)) = length es"
  by (induction es) (simp_all add: hitScan_Cons del: hitScan.simps(2))

lemma hitScan_dead_kept:
  "i < length es \<Longrightarrow> e_dead (es ! i) \<Longrightarrow> fst (hitScan b es sc) ! i = es ! i"
proof (induction es arbitrary: i)
  case Nil
  then show ?case by simp
next
  case (Cons en es)
  show ?case
  proof (cases i)
    case 0
    with Cons.prems show ?thesis by (simp add: hitScan_Cons del: hitScan.simps(2))
  next
    case (Suc j)
    with Cons.prems have "fst (hitScan b es sc) ! j = es ! j"
      by (intro Cons.IH) simp_all
    with Suc show ?thesis by (simp add: hitScan_Cons del: hitScan.simps(2))
  qed
qed

text \<open>The bullet hits the first live enemy in range.\<close>

lemma hitScan_first:
  "i < length es \<Longrightarrow> \<not> e_dead (es ! i) \<Longrightarrow> inRange b (es ! i) \<Longrightarrow>
   \<forall>j<i. e_dead (es ! j) \<or> \<not> inRange b (es ! j) \<Longrightarrow>
   hitScan b es sc = (es[i := fst (damage (es ! i) sc)], snd (damage (es ! i) sc), True)"
proof (induction es arbitrary: i)
  case Nil
  then show ?case by simp
next
  case (Cons en es)
  show ?case
  proof (cases i)
    case 0
    with Cons.prems show ?thesis by (simp add: hitScan_Cons del: hitScan.simps(2))
  next
    case (Suc k)
    from Cons.prems(4) Suc have hd: "e_dead en \<or> \<not> inRange b en" by auto
    from Cons.prems(4) Suc have tl: "\<forall>j<k. e_dead (es ! j) \<or> \<not> inRange b (es ! j)" by auto
    have "hitScan b es sc = (es[k := fst (damage (es ! k) sc)], snd (damage (es ! k) sc), True)"
      using Cons.prems(1-3) Suc tl by (intro Cons.IH) simp_all
    with hd Suc show ?thesis by (auto simp add: hitScan_Cons simp del: hitScan.simps(2))
  qed
qed

lemma hitScan_miss:
  "\<forall>e\<in>set es. e_dead e \<or> \<not> inRange b e \<Longrightarrow> hitScan b es sc = (es, sc, False)"
  by (induction es) (auto simp add: hitScan_Cons simp del: hitScan.simps(2))

text \<open>The enemies a bullet meets dead make no difference to what it does.\<close>

lemma hitScan_filter:
  "snd (hitScan b (filter live es) sc) = snd (hitScan b es sc) \<and>
   filter live (fst (hitScan b (filter live es) sc)) = filter live (fst (hitScan b es sc))"
  by (induction es) (auto simp add: hitScan_Cons simp del: hitScan.simps(2))

lemma hitScan_cong:
  assumes "filter live es1 = filter live es2"
  shows "snd (hitScan b es1 sc) = snd (hitScan b es2 sc) \<and>
         filter live (fst (hitScan b es1 sc)) = filter live (fst (hitScan b es2 sc))"
  using hitScan_filter [of b es1 sc] hitScan_filter [of b es2 sc] assms by simp

lemma bulletsLoop_cong:
  "filter live es1 = filter live es2 \<Longrightarrow>
   fst (bulletsLoop bs es1 sc) = fst (bulletsLoop bs es2 sc) \<and>
   snd (snd (bulletsLoop bs es1 sc)) = snd (snd (bulletsLoop bs es2 sc)) \<and>
   filter live (fst (snd (bulletsLoop bs es1 sc))) = filter live (fst (snd (bulletsLoop bs es2 sc)))"
proof (induction bs arbitrary: es1 es2 sc)
  case Nil
  then show ?case by simp
next
  case (Cons b bs)
  obtain a1 c1 h1 where r1: "hitScan b es1 sc = (a1, c1, h1)" by (cases "hitScan b es1 sc")
  obtain a2 c2 h2 where r2: "hitScan b es2 sc = (a2, c2, h2)" by (cases "hitScan b es2 sc")
  from hitScan_cong [OF Cons.prems, of b sc] r1 r2
  have eq: "c1 = c2" "h1 = h2" "filter live a1 = filter live a2" by simp_all
  from Cons.IH [OF eq(3), of c1] show ?case
    by (simp add: r1 r2 eq(1,2) bulletsLoop_Cons del: bulletsLoop.simps(2))
qed

lemma bulletsLoop_length: "length (fst (snd (bulletsLoop bs es sc))) = length es"
proof (induction bs arbitrary: es sc)
  case Nil
  show ?case by simp
next
  case (Cons b bs)
  obtain a c h where r: "hitScan b es sc = (a, c, h)" by (cases "hitScan b es sc")
  have "length a = length es" using hitScan_length [of b es sc] r by simp
  with Cons.IH [of a c] show ?case by (simp add: r bulletsLoop_Cons del: bulletsLoop.simps(2))
qed

lemma bulletsLoop_dead_kept:
  "i < length es \<Longrightarrow> e_dead (es ! i) \<Longrightarrow> fst (snd (bulletsLoop bs es sc)) ! i = es ! i"
proof (induction bs arbitrary: es sc)
  case Nil
  show ?case by simp
next
  case (Cons b bs)
  obtain a c h where r: "hitScan b es sc = (a, c, h)" by (cases "hitScan b es sc")
  have len: "length a = length es" using hitScan_length [of b es sc] r by simp
  have same: "a ! i = es ! i" using hitScan_dead_kept [OF Cons.prems, of b sc] r by simp
  have "fst (snd (bulletsLoop bs a c)) ! i = a ! i"
    using Cons.prems len same by (intro Cons.IH) simp_all
  with same show ?case by (simp add: r bulletsLoop_Cons del: bulletsLoop.simps(2))
qed

text \<open>Each kill adds 10 to the score, and nothing else changes the score.\<close>

lemma hitScan_score_dead:
  "fst (snd (hitScan b es sc)) + 10 * int (length (filter e_dead es)) =
     sc + 10 * int (length (filter e_dead (fst (hitScan b es sc))))"
  by (induction es) (auto simp add: damage_cases hitScan_Cons simp del: hitScan.simps(2))

lemma bulletsLoop_score_dead:
  "snd (snd (bulletsLoop bs es sc)) + 10 * int (length (filter e_dead es)) =
     sc + 10 * int (length (filter e_dead (fst (snd (bulletsLoop bs es sc)))))"
proof (induction bs arbitrary: es sc)
  case Nil
  show ?case by simp
next
  case (Cons b bs)
  obtain a c h where r: "hitScan b es sc = (a, c, h)" by (cases "hitScan b es sc")
  from hitScan_score_dead [of b es sc] r
  have "c + 10 * int (length (filter e_dead es)) = sc + 10 * int (length (filter e_dead a))"
    by simp
  with Cons.IH [of a c] show ?case by (simp add: r bulletsLoop_Cons del: bulletsLoop.simps(2))
qed

lemma checkBulletHits_proj:
  "fst (checkBulletHits bs s) = fst (bulletsLoop bs (g_enemies s) (g_score s)) \<and>
   g_enemies (snd (checkBulletHits bs s)) = fst (snd (bulletsLoop bs (g_enemies s) (g_score s))) \<and>
   g_score (snd (checkBulletHits bs s)) = snd (snd (bulletsLoop bs (g_enemies s) (g_score s)))"
  by (simp add: checkBulletHits_def case_prod_beta)

lemma checkBulletHits_one_hit:
  assumes "i < length (g_enemies s)" and "\<not> e_dead (g_enemies s ! i)"
    and "inRange b (g_enemies s ! i)"
    and "\<forall>j<i. e_dead (g_enemies s ! j) \<or> \<not> inRange b (g_enemies s ! j)"
  shows "checkBulletHits [b] s =
           ([], s\<lparr>g_enemies := (g_enemies s)[i := fst (damage (g_enemies s ! i) (g_score s))],
                  g_score := snd (damage (g_enemies s ! i) (g_score s))\<rparr>)"
  using hitScan_first [OF assms, of "g_score s"]
  by (simp add: checkBulletHits_def)

section \<open>The enemy loop and the drawing loop\<close>

lemma enemyStep_dead: "e_dead e \<Longrightarrow> enemyStep px pz e hp = (e, hp)"
  by (simp add: enemyStep_def)

lemma enemyStep_flags:
  "e_dead (fst (enemyStep px pz e hp)) = e_dead e \<and>
   e_health (fst (enemyStep px pz e hp)) = e_health e"
  by (simp add: enemyStep_def Let_def)

lemma enemiesLoop_Cons:
  "enemiesLoop px pz (e # es) hp =
     (fst (enemyStep px pz e hp) # fst (enemiesLoop px pz es (snd (enemyStep px pz e hp))),
      snd (enemiesLoop px pz es (snd (enemyStep px pz e hp))))"
  by (simp add: case_prod_beta)

lemma enemiesLoop_length: "length (fst (enemiesLoop px pz es hp)) = length es"
  by (induction es arbitrary: hp) (simp_all add: enemiesLoop_Cons del: enemiesLoop.simps(2))

lemma enemiesLoop_nth:
  "i < length es \<Longrightarrow>
     e_dead (fst (enemiesLoop px pz es hp) ! i) = e_dead (es ! i) \<and>
     e_health (fst (enemiesLoop px pz es hp) ! i) = e_health (es ! i) \<and>
     (e_dead (es ! i) \<longrightarrow> fst (enemiesLoop px pz es hp) ! i = es ! i)"
proof (induction es arbitrary: i hp)
  case Nil
  then show ?case by simp
next
  case (Cons e es)
  show ?case
  proof (cases i)
    case 0
    then show ?thesis
      by (simp add: enemiesLoop_Cons enemyStep_flags enemyStep_dead del: enemiesLoop.simps(2))
  next
    case (Suc j)
    with Cons.prems have "j < length es" by simp
    from Cons.IH [OF this] Suc show ?thesis
      by (simp add: enemiesLoop_Cons del: enemiesLoop.simps(2))
  qed
qed

text \<open>The player's health after the loop is what the live enemies alone make it.\<close>

lemma enemiesLoop_filter:
  "snd (enemiesLoop px pz (filter live es) hp) = snd (enemiesLoop px pz es hp)"
  by (induction es arbitrary: hp)
     (simp_all add: enemiesLoop_Cons enemyStep_dead del: enemiesLoop.simps(2))

lemma drawEnemiesLoop_filter:
  "drawEnemiesLoop es = concat (map drawEnemy (filter live es))"
  by (induction es) simp_all

lemma updateEnemies_all_live: "\<forall>e\<in>set (g_enemies (updateEnemies cam rnd s)). \<not> e_dead e"
  by (simp add: updateEnemies_def Let_def case_prod_beta)

lemma spawnEnemy_nth:
  "i < length (g_enemies s) \<Longrightarrow> g_enemies (spawnEnemy rnd s) ! i = g_enemies s ! i"
  by (simp add: spawnEnemy_def case_prod_beta Let_def nth_append)

lemma main_init_enemies:
  "g_enemies (main_init (0, 0, 0)) =
     [\<lparr> e_x = 1, e_y = 0.5, e_z = 1, e_health = 2, e_scale = 0.6, e_bobTime = 0, e_dead = False \<rparr>]"
  by (simp add: main_init_def initGun_def initEnemies_def spawnEnemy_def)

lemma main_init_score: "g_score (main_init rnd) = 0"
  by (simp add: main_init_def initGun_def initEnemies_def spawnEnemy_def case_prod_beta Let_def)

text \<open>
  Claim C3.  Let a bullet be resolved on enemy \<open>i\<close>: the enemy is alive and in range, and
  no enemy before it in the list is both alive and in range.  If the enemy has health 2
  (as every enemy has when \<open>spawnEnemy\<close> creates it), the hit consumes the bullet and
  leaves it alive with health 1 and the score as it was.  If it has health 1, the hit
  consumes the bullet, brings the health to 0, sets \<open>dead\<close> and adds 10 to the score.
  So two resolved hits are needed and the score rises by 10 on the second one.  It rises
  once only: no later call of \<open>checkBulletHits\<close> changes a dead enemy, and the loop of
  \<open>updateEnemies\<close> changes neither the health nor the \<open>dead\<close> flag of any enemy.
\<close>

theorem enemy_dies_on_second_hit:
  assumes "i < length (g_enemies s)" and "\<not> e_dead (g_enemies s ! i)"
    and "inRange b (g_enemies s ! i)"
    and "\<forall>j<i. e_dead (g_enemies s ! j) \<or> \<not> inRange b (g_enemies s ! j)"
  shows "(e_health (g_enemies s ! i) = 2 \<longrightarrow>
            checkBulletHits [b] s =
              ([], s\<lparr>g_enemies := (g_enemies s)[i := (g_enemies s ! i)\<lparr>e_health := 1\<rparr>]\<rparr>))
       \<and> (e_health (g_enemies s ! i) = 1 \<longrightarrow>
            checkBulletHits [b] s =
              ([], s\<lparr>g_enemies :=
                       (g_enemies s)[i := (g_enemies s ! i)\<lparr>e_health := 0, e_dead := True\<rparr>],
                     g_score := g_score s + 10\<rparr>))
       \<and> (\<forall>bs t. i < length (g_enemies t) \<and> e_dead (g_enemies t ! i) \<longrightarrow>
            g_enemies (snd (checkBulletHits bs t)) ! i = g_enemies t ! i)
       \<and> (\<forall>px pz es hp. i < length es \<longrightarrow>
            e_health (fst (enemiesLoop px pz es hp) ! i) = e_health (es ! i) \<and>
            e_dead (fst (enemiesLoop px pz es hp) ! i) = e_dead (es ! i))"
proof -
  note hit = checkBulletHits_one_hit [OF assms]
  have two: "checkBulletHits [b] s =
              ([], s\<lparr>g_enemies := (g_enemies s)[i := (g_enemies s ! i)\<lparr>e_health := 1\<rparr>]\<rparr>)"
    if "e_health (g_enemies s ! i) = 2"
    using hit that by (simp add: damage_cases)
  have one: "checkBulletHits [b] s =
              ([], s\<lparr>g_enemies :=
                       (g_enemies s)[i := (g_enemies s ! i)\<lparr>e_health := 0, e_dead := True\<rparr>],
                     g_score := g_score s + 10\<rparr>)"
    if "e_health (g_enemies s ! i) = 1"
    using hit that by (simp add: damage_cases)
  have dead: "g_enemies (snd (checkBulletHits bs t)) ! i = g_enemies t ! i"
    if "i < length (g_enemies t) \<and> e_dead (g_enemies t ! i)" for bs t
    using that by (simp add: checkBulletHits_proj bulletsLoop_dead_kept)
  have loop: "e_health (fst (enemiesLoop px pz es hp) ! i) = e_health (es ! i) \<and>
            e_dead (fst (enemiesLoop px pz es hp) ! i) = e_dead (es ! i)"
    if "i < length es" for px pz es hp
    using enemiesLoop_nth [OF that] by simp
  show ?thesis using two one dead loop by blast
qed

theorem enemy_dies_on_second_hit_witness:
  "checkBulletHits [\<lparr> b_x = 1, b_y = 0.5, b_z = 1, b_dx = 0.5, b_dy = 0, b_dz = 0, b_life = 70 \<rparr>]
     (snd (checkBulletHits
        [\<lparr> b_x = 1, b_y = 0.5, b_z = 1, b_dx = 0.5, b_dy = 0, b_dz = 0, b_life = 70 \<rparr>]
        (main_init (0, 0, 0))))
   = ([], (main_init (0, 0, 0))
          \<lparr>g_enemies := [\<lparr> e_x = 1, e_y = 0.5, e_z = 1, e_health = 0, e_scale = 0.6,
                           e_bobTime = 0, e_dead = True \<rparr>],
            g_score := 10\<rparr>)"
proof -
  let ?b = "\<lparr> b_x = 1, b_y = 0.5, b_z = 1, b_dx = 0.5, b_dy = 0, b_dz = 0, b_life = 70 \<rparr>"
  let ?s = "main_init (0, 0, 0)"
  let ?s1 = "?s\<lparr>g_enemies := [\<lparr> e_x = 1, e_y = 0.5, e_z = 1, e_health = 1, e_scale = 0.6,
                           e_bobTime = 0, e_dead = False \<rparr>]\<rparr>"
  have r: "inRange ?b \<lparr> e_x = 1, e_y = 0.5, e_z = 1, e_health = h, e_scale = 0.6,
                           e_bobTime = 0, e_dead = False \<rparr>" for h
    by (simp add: inRange_def)
  have first: "checkBulletHits [?b] ?s = ([], ?s1)"
    using enemy_dies_on_second_hit [of 0 ?s ?b] r [of 2] by (simp add: main_init_enemies)
  have "checkBulletHits [?b] ?s1 =
     ([], ?s\<lparr>g_enemies := [\<lparr> e_x = 1, e_y = 0.5, e_z = 1, e_health = 0, e_scale = 0.6,
                           e_bobTime = 0, e_dead = True \<rparr>], g_score := 10\<rparr>)"
    using enemy_dies_on_second_hit [of 0 ?s1 ?b] r [of 1] by (simp add: main_init_score)
  with first show ?thesis by simp
qed

text \<open>
  Claim C10.  Let enemy \<open>i\<close> of the list be dead.  The loop of \<open>updateEnemies\<close> leaves it
  as it is (not moved, flag still set), and the player's health after the loop is what
  the loop gives on the live enemies alone.  \<open>checkBulletHits\<close> leaves it as it is (no
  damage, flag still set), and the surviving bullets and the score are what they are
  with the dead enemies taken out of the list: a dead enemy absorbs no bullet.
  \<open>spawnEnemy\<close> leaves it as it is.  \<open>drawEnemies\<close> issues the draw calls of the live
  enemies alone.
\<close>

theorem dead_enemy_inert:
  assumes "i < length (g_enemies s)" and "e_dead (g_enemies s ! i)"
  shows "fst (enemiesLoop px pz (g_enemies s) hp) ! i = g_enemies s ! i
       \<and> snd (enemiesLoop px pz (g_enemies s) hp) =
           snd (enemiesLoop px pz (filter (\<lambda>e. \<not> e_dead e) (g_enemies s)) hp)
       \<and> g_enemies (snd (checkBulletHits bs s)) ! i = g_enemies s ! i
       \<and> fst (checkBulletHits bs s) =
           fst (checkBulletHits bs (s\<lparr>g_enemies := filter (\<lambda>e. \<not> e_dead e) (g_enemies s)\<rparr>))
       \<and> g_score (snd (checkBulletHits bs s)) =
           g_score (snd (checkBulletHits bs
              (s\<lparr>g_enemies := filter (\<lambda>e. \<not> e_dead e) (g_enemies s)\<rparr>)))
       \<and> g_enemies (spawnEnemy rnd s) ! i = g_enemies s ! i
       \<and> drawEnemies prog s =
           drawEnemies prog (s\<lparr>g_enemies := filter (\<lambda>e. \<not> e_dead e) (g_enemies s)\<rparr>)"
proof -
  let ?es = "g_enemies s"
  have a: "fst (enemiesLoop px pz ?es hp) ! i = ?es ! i"
    using enemiesLoop_nth [OF assms(1), of px pz hp] assms(2) by simp
  have b: "snd (enemiesLoop px pz ?es hp) = snd (enemiesLoop px pz (filter live ?es) hp)"
    by (simp add: enemiesLoop_filter)
  have c: "g_enemies (snd (checkBulletHits bs s)) ! i = ?es ! i"
    using assms by (simp add: checkBulletHits_proj bulletsLoop_dead_kept)
  have "filter live (filter live ?es) = filter live ?es" by simp
  from bulletsLoop_cong [OF this, of bs "g_score s"]
  have d: "fst (checkBulletHits bs s) = fst (checkBulletHits bs (s\<lparr>g_enemies := filter live ?es\<rparr>))"
    and e: "g_score (snd (checkBulletHits bs s)) =
           g_score (snd (checkBulletHits bs (s\<lparr>g_enemies := filter live ?es\<rparr>)))"
    by (simp_all add: checkBulletHits_proj)
  have f: "g_enemies (spawnEnemy rnd s) ! i = ?es ! i"
    using assms(1) by (rule spawnEnemy_nth)
  have g: "drawEnemies prog s = drawEnemies prog (s\<lparr>g_enemies := filter live ?es\<rparr>)"
    by (simp add: drawEnemies_def drawEnemiesLoop_filter)
  show ?thesis using a b c d e f g by blast
qed

theorem dead_enemy_inert_witness:
  "e_dead (g_enemies
      (snd (checkBulletHits
         [\<lparr> b_x = 1, b_y = 0.5, b_z = 1, b_dx = 0.5, b_dy = 0, b_dz = 0, b_life = 70 \<rparr>,
          \<lparr> b_x = 1, b_y = 0.5, b_z = 1, b_dx = 0.5, b_dy = 0, b_dz = 0, b_life = 70 \<rparr>]
         (main_init (0, 0, 0)))) ! 0)
   \<and> drawEnemies True
        (snd (checkBulletHits
         [\<lparr> b_x = 1, b_y = 0.5, b_z = 1, b_dx = 0.5, b_dy = 0, b_dz = 0, b_life = 70 \<rparr>,
          \<lparr> b_x = 1, b_y = 0.5, b_z = 1, b_dx = 0.5, b_dy = 0, b_dz = 0, b_life = 70 \<rparr>]
         (main_init (0, 0, 0)))) = []
   \<and> fst (checkBulletHits
        [\<lparr> b_x = 1, b_y = 0.5, b_z = 1, b_dx = 0.5, b_dy = 0, b_dz = 0, b_life = 60 \<rparr>]
        (snd (checkBulletHits
         [\<lparr> b_x = 1, b_y = 0.5, b_z = 1, b_dx = 0.5, b_dy = 0, b_dz = 0, b_life = 70 \<rparr>,
          \<lparr> b_x = 1, b_y = 0.5, b_z = 1, b_dx = 0.5, b_dy = 0, b_dz = 0, b_life = 70 \<rparr>]
         (main_init (0, 0, 0)))))
       = [\<lparr> b_x = 1, b_y = 0.5, b_z = 1, b_dx = 0.5, b_dy = 0, b_dz = 0, b_life = 60 \<rparr>]"
proof -
  let ?b = "\<lparr> b_x = 1, b_y = 0.5, b_z = 1, b_dx = 0.5, b_dy = 0, b_dz = 0, b_life = 70 \<rparr>"
  let ?c = "\<lparr> b_x = 1, b_y = 0.5, b_z = 1, b_dx = 0.5, b_dy = 0, b_dz = 0, b_life = 60 \<rparr>"
  let ?t = "snd (checkBulletHits [?b, ?b] (main_init (0, 0, 0)))"
  have es: "g_enemies ?t =
     [\<lparr> e_x = 1, e_y = 0.5, e_z = 1, e_health = 0, e_scale = 0.6, e_bobTime = 0, e_dead = True \<rparr>]"
    by (simp add: checkBulletHits_proj main_init_enemies inRange_def damage_def)
  have i: "0 < length (g_enemies ?t)" and dead: "e_dead (g_enemies ?t ! 0)"
    unfolding es by simp_all
  from dead_enemy_inert [OF i dead, of _ _ _ "[?c]" _ True]
  have "fst (checkBulletHits [?c] ?t) =
          fst (checkBulletHits [?c] (?t\<lparr>g_enemies := filter live (g_enemies ?t)\<rparr>))"
    and "drawEnemies True ?t = drawEnemies True (?t\<lparr>g_enemies := filter live (g_enemies ?t)\<rparr>)"
    by blast+
  then have "fst (checkBulletHits [?c] ?t) = [?c]" and "drawEnemies True ?t = []"
    unfolding es by (simp_all add: checkBulletHits_proj drawEnemies_def)
  with dead show ?thesis by simp
qed

section \<open>The order of a frame\<close>

lemma applyGravity_horizontal:
  "eye0 (applyGravity c) = eye0 c \<and> eye2 (applyGravity c) = eye2 c"
  by (simp add: applyGravity_def Let_def)

lemma updateBullets_other:
  "camera (updateBullets s) = camera s \<and> g_enemies (updateBullets s) = g_enemies s \<and>
   g_score (updateBullets s) = g_score s \<and> g_playerHealth (updateBullets s) = g_playerHealth s \<and>
   g_enemySpawnTimer (updateBullets s) = g_enemySpawnTimer s \<and> g_keys (updateBullets s) = g_keys s"
  by (simp add: updateBullets_def Let_def)

lemma spawnTimerStep_other:
  "camera (spawnTimerStep rnd s) = camera s \<and> g_bullets (spawnTimerStep rnd s) = g_bullets s \<and>
   g_score (spawnTimerStep rnd s) = g_score s \<and>
   g_shootCooldown (spawnTimerStep rnd s) = g_shootCooldown s \<and>
   g_playerHealth (spawnTimerStep rnd s) = g_playerHealth s"
  by (simp add: spawnTimerStep_def Let_def spawnEnemy_def case_prod_beta)

lemma updateEnemies_other:
  "camera (updateEnemies cam rnd s) = camera s \<and> g_bullets (updateEnemies cam rnd s) = g_bullets s \<and>
   g_score (updateEnemies cam rnd s) = g_score s \<and>
   g_shootCooldown (updateEnemies cam rnd s) = g_shootCooldown s"
  by (simp add: updateEnemies_def Let_def case_prod_beta spawnTimerStep_other)

lemma tick_unfold:
  "tick rnd s =
     (let s1 = handleKeys s;
          s2 = s1\<lparr>camera := applyGravity (camera s1)\<rparr>;
          s3 = updateBullets s2;
          s4 = updateEnemies (camera s3) rnd s3
      in (snd (checkBulletHits (g_bullets s4) s4))
           \<lparr>g_bullets := fst (checkBulletHits (g_bullets s4) s4)\<rparr>)"
  by (simp add: tick_def Let_def case_prod_beta)

lemma keyMove_other:
  "g_enemies (keyMove k m s) = g_enemies s \<and> g_score (keyMove k m s) = g_score s \<and>
   g_playerHealth (keyMove k m s) = g_playerHealth s \<and>
   g_enemySpawnTimer (keyMove k m s) = g_enemySpawnTimer s"
  by (simp add: keyMove_def)

lemma keyJump_other:
  "g_enemies (keyJump s) = g_enemies s \<and> g_score (keyJump s) = g_score s \<and>
   g_playerHealth (keyJump s) = g_playerHealth s \<and>
   g_enemySpawnTimer (keyJump s) = g_enemySpawnTimer s"
  by (simp add: keyJump_def)

lemma keyShoot_other:
  "g_enemies (keyShoot s) = g_enemies s \<and> g_score (keyShoot s) = g_score s \<and>
   g_playerHealth (keyShoot s) = g_playerHealth s \<and>
   g_enemySpawnTimer (keyShoot s) = g_enemySpawnTimer s"
  by (simp add: keyShoot_def shoot_def Let_def)

lemma keyBlock_other:
  "g_enemies (keyBlock k s) = g_enemies s \<and> g_score (keyBlock k s) = g_score s \<and>
   g_playerHealth (keyBlock k s) = g_playerHealth s \<and>
   g_enemySpawnTimer (keyBlock k s) = g_enemySpawnTimer s"
  by (simp add: keyBlock_def)

lemma handleKeys_other:
  "g_enemies (handleKeys s) = g_enemies s \<and> g_score (handleKeys s) = g_score s \<and>
   g_playerHealth (handleKeys s) = g_playerHealth s \<and>
   g_enemySpawnTimer (handleKeys s) = g_enemySpawnTimer s"
  by (simp add: handleKeys_def Let_def keyMove_other keyJump_other keyShoot_other keyBlock_other)

lemma spawnTimerStep_reads:
  assumes "g_enemies s = g_enemies s'" and "g_enemySpawnTimer s = g_enemySpawnTimer s'"
  shows "g_enemies (spawnTimerStep rnd s) = g_enemies (spawnTimerStep rnd s')"
  using assms by (simp add: spawnTimerStep_def Let_def spawnEnemy_def case_prod_beta)

text \<open>\<open>updateEnemies\<close> reads the camera's horizontal position and the enemy variables only.\<close>

lemma updateEnemies_reads:
  assumes "eye0 cam = eye0 cam'" and "eye2 cam = eye2 cam'"
    and "g_enemies s = g_enemies s'" and "g_enemySpawnTimer s = g_enemySpawnTimer s'"
    and "g_playerHealth s = g_playerHealth s'"
  shows "g_enemies (updateEnemies cam rnd s) = g_enemies (updateEnemies cam' rnd s') \<and>
         g_playerHealth (updateEnemies cam rnd s) = g_playerHealth (updateEnemies cam' rnd s')"
  using assms(1,2,5) spawnTimerStep_reads [OF assms(3,4), of rnd]
  by (simp add: updateEnemies_def Let_def case_prod_beta spawnTimerStep_other)

lemma tick_parts:
  "camera (tick rnd s) = applyGravity (camera (handleKeys s))
   \<and> g_playerHealth (tick rnd s) =
       g_playerHealth (updateEnemies (camera (handleKeys s)) rnd (handleKeys s))
   \<and> (g_bullets (tick rnd s), g_enemies (tick rnd s), g_score (tick rnd s)) =
       bulletsLoop (g_bullets (updateBullets (handleKeys s)))
         (g_enemies (updateEnemies (camera (handleKeys s)) rnd (handleKeys s)))
         (g_score (handleKeys s))"
proof -
  define s1 where "s1 = handleKeys s"
  define s2 where "s2 = s1\<lparr>camera := applyGravity (camera s1)\<rparr>"
  define s3 where "s3 = updateBullets s2"
  define s4 where "s4 = updateEnemies (camera s3) rnd s3"
  have t: "tick rnd s = (snd (checkBulletHits (g_bullets s4) s4))
           \<lparr>g_bullets := fst (checkBulletHits (g_bullets s4) s4)\<rparr>"
    by (simp add: tick_unfold Let_def s1_def s2_def s3_def s4_def)
  have cam3: "camera s3 = applyGravity (camera s1)"
    by (simp add: s3_def s2_def updateBullets_other)
  have b3: "g_bullets s3 = g_bullets (updateBullets s1)"
    by (simp add: s3_def s2_def updateBullets_bullets)
  have b4: "g_bullets s4 = g_bullets (updateBullets s1)"
    by (simp add: s4_def updateEnemies_other b3)
  have "g_enemies s4 = g_enemies (updateEnemies (camera s1) rnd s1) \<and>
        g_playerHealth s4 = g_playerHealth (updateEnemies (camera s1) rnd s1)"
    unfolding s4_def
    by (rule updateEnemies_reads)
       (simp_all add: cam3 applyGravity_horizontal s3_def s2_def updateBullets_other)
  then have e4: "g_enemies s4 = g_enemies (updateEnemies (camera s1) rnd s1)"
    and h4: "g_playerHealth s4 = g_playerHealth (updateEnemies (camera s1) rnd s1)"
    by simp_all
  have sc4: "g_score s4 = g_score s1"
    by (simp add: s4_def s3_def s2_def updateEnemies_other updateBullets_other)
  have cam4: "camera s4 = applyGravity (camera s1)"
    by (simp add: s4_def updateEnemies_other cam3)
  have c1: "camera (tick rnd s) = applyGravity (camera s1)"
    by (simp add: t checkBulletHits_def case_prod_beta cam4)
  have c2: "g_playerHealth (tick rnd s) = g_playerHealth (updateEnemies (camera s1) rnd s1)"
    by (simp add: t checkBulletHits_def case_prod_beta h4)
  have c3: "(g_bullets (tick rnd s), g_enemies (tick rnd s), g_score (tick rnd s)) =
         bulletsLoop (g_bullets (updateBullets s1))
           (g_enemies (updateEnemies (camera s1) rnd s1)) (g_score s1)"
    by (simp add: t checkBulletHits_def case_prod_beta b4 e4 sc4)
  show ?thesis
    using c1 c2 c3 unfolding s1_def by simp
qed

text \<open>
  Claim C2.  Let \<open>s1\<close> be the state after this frame's \<open>_handleKeys\<close>.  In \<open>tick\<close>,
  gravity is applied to the camera of \<open>s1\<close>; the enemies move towards, and the player is
  damaged from, the camera position of \<open>s1\<close> (the player's health after the frame is the
  one \<open>updateEnemies\<close> computes from \<open>s1\<close> with the camera of \<open>s1\<close>); and the bullets, the
  enemies and the score after the frame are those the hit resolution computes from the
  bullets \<open>B\<close> already advanced by this frame's \<open>updateBullets\<close> and the enemies \<open>E\<close>
  already moved by this frame's \<open>updateEnemies\<close>.
\<close>

theorem tick_order:
  "(let s1 = handleKeys s;
        B = g_bullets (updateBullets s1);
        E = g_enemies (updateEnemies (camera s1) rnd s1)
    in camera (tick rnd s) = applyGravity (camera s1)
     \<and> g_playerHealth (tick rnd s) = g_playerHealth (updateEnemies (camera s1) rnd s1)
     \<and> B = filter (\<lambda>b. 0 < b_life b) (map advanceBullet (g_bullets s1))
     \<and> (g_bullets (tick rnd s), g_enemies (tick rnd s), g_score (tick rnd s)) =
         bulletsLoop B E (g_score s1))"
  unfolding Let_def using tick_parts [of rnd s] by (simp add: updateBullets_bullets)

lemma sqrt_16: "sqrt 16 = 4"
  by (rule real_sqrt_unique) simp_all

lemma handleKeys_no_keys: "g_keys s = keys_none \<Longrightarrow> handleKeys s = s"
  by (simp add: handleKeys_def Let_def keyMove_def keyJump_def keyShoot_def keyBlock_def
      keys_none_def)

text \<open>
  Claim C1 says that an enemy killed by the hit resolution of a frame is out of the
  enemy list when that frame ends.  It is not: \<open>tick\<close> runs the filter (inside
  \<open>updateEnemies\<close>) before \<open>checkBulletHits\<close>.  Here an enemy with health 1 is hit in the
  frame; when the frame ends it is in \<open>g_enemies\<close>, flagged dead.
\<close>

theorem dead_enemy_in_list_after_tick:
  "g_enemies (tick (0, 0, 0)
      \<lparr> camera = new_Camera, g_keys = keys_none,
        g_bullets = [\<lparr> b_x = 19.48, b_y = 0.5, b_z = 16,
                       b_dx = 0.5, b_dy = 0, b_dz = 0, b_life = 70 \<rparr>],
        g_shootCooldown = 0,
        g_enemies = [\<lparr> e_x = 20, e_y = 0.5, e_z = 16, e_health = 1, e_scale = 0.6,
                       e_bobTime = - 0.08, e_dead = False \<rparr>],
        g_enemySpawnTimer = 0, g_playerHealth = 100, g_score = 0 \<rparr>)
   = [\<lparr> e_x = 19.98, e_y = 0.5, e_z = 16, e_health = 0, e_scale = 0.6,
        e_bobTime = 0, e_dead = True \<rparr>]"
  by (simp add: tick_unfold handleKeys_no_keys Let_def new_Camera_def applyGravity_def
      updateBullets_def advanceBullet_def updateEnemies_def spawnTimerStep_def
      ENEMY_SPAWN_RATE_def enemyStep_def sqrt_16 ENEMY_SPEED_def ENEMY_DAMAGE_DIST_def
      checkBulletHits_def inRange_def damage_def)

text \<open>What \<open>updateEnemies\<close> returns, in terms of the list that went in.\<close>

lemma enemiesLoop_filter_fst:
  "filter live (fst (enemiesLoop px pz es hp)) = fst (enemiesLoop px pz (filter live es) hp)"
  by (induction es arbitrary: hp)
     (simp_all add: enemiesLoop_Cons enemyStep_dead enemyStep_flags del: enemiesLoop.simps(2))

lemma updateEnemies_enemies:
  "g_enemies (updateEnemies cam rnd s) =
     fst (enemiesLoop (eye0 cam) (eye2 cam)
            (filter live (g_enemies (spawnTimerStep rnd s))) (g_playerHealth s))"
  by (simp add: updateEnemies_def Let_def case_prod_beta spawnTimerStep_other
      enemiesLoop_filter_fst)

lemma spawnTimerStep_appends:
  "take (length (g_enemies s)) (g_enemies (spawnTimerStep rnd s)) = g_enemies s \<and>
   filter e_dead (g_enemies (spawnTimerStep rnd s)) = filter e_dead (g_enemies s)"
  by (simp add: spawnTimerStep_def Let_def spawnEnemy_def case_prod_beta)

lemma updateEnemies_drops_dead:
  "length (g_enemies (updateEnemies cam rnd s)) + length (filter e_dead (g_enemies s)) =
     length (g_enemies (spawnTimerStep rnd s))"
proof -
  let ?L = "g_enemies (spawnTimerStep rnd s)"
  have "length (g_enemies (updateEnemies cam rnd s)) = length (filter live ?L)"
    by (simp add: updateEnemies_enemies enemiesLoop_length)
  moreover have "length (filter e_dead (g_enemies s)) = length (filter e_dead ?L)"
    by (simp add: spawnTimerStep_appends)
  moreover have "length (filter e_dead ?L) + length (filter live ?L) = length ?L"
    by (rule sum_length_filter_compl)
  ultimately show ?thesis by simp
qed

lemma spawnTimerStep_idle:
  "g_enemySpawnTimer s + 1 < ENEMY_SPAWN_RATE \<Longrightarrow>
     g_enemies (spawnTimerStep rnd s) = g_enemies s"
  by (simp add: spawnTimerStep_def Let_def)

text \<open>
  Claim C1, amended.  In every frame the enemies that come out of \<open>updateEnemies\<close> are all
  alive; the hit resolution that follows keeps the list's length, and the score of the
  frame rises by 10 for each enemy that is dead in the list when the frame ends.  So the
  dead enemies in the list \<open>t\<close> holds at the end of a frame are those killed in that
  frame, each counted in the score.  The next \<open>updateEnemies\<close> (run by the next frame,
  with any camera and random numbers) removes exactly them: its spawn step only appends
  to the list and adds no dead entry, and the list it returns is the enemy loop run over
  the live entries alone, in their order, so it is shorter than the list after the spawn
  step by the number of dead entries of \<open>t\<close>, and holds no dead enemy.
\<close>

theorem dead_enemies_leave_next_update:
  "(let s1 = handleKeys s;
        E = g_enemies (updateEnemies (camera s1) rnd s1)
    in (\<forall>e\<in>set E. \<not> e_dead e)
     \<and> length (g_enemies (tick rnd s)) = length E
     \<and> g_score (tick rnd s) =
         g_score s + 10 * int (length (filter e_dead (g_enemies (tick rnd s)))))
   \<and> (\<forall>cam' rnd'.
        (let t = tick rnd s;
             L = g_enemies (spawnTimerStep rnd' t)
         in take (length (g_enemies t)) L = g_enemies t
          \<and> filter e_dead L = filter e_dead (g_enemies t)
          \<and> g_enemies (updateEnemies cam' rnd' t) =
              fst (enemiesLoop (eye0 cam') (eye2 cam') (filter live L) (g_playerHealth t))
          \<and> length (g_enemies (updateEnemies cam' rnd' t)) +
              length (filter e_dead (g_enemies t)) = length L
          \<and> (\<forall>e\<in>set (g_enemies (updateEnemies cam' rnd' t)). \<not> e_dead e)))"
proof -
  define s1 where "s1 = handleKeys s"
  define E where "E = g_enemies (updateEnemies (camera s1) rnd s1)"
  define B where "B = g_bullets (updateBullets s1)"
  have live: "\<forall>e\<in>set E. \<not> e_dead e"
    unfolding E_def by (rule updateEnemies_all_live)
  then have none: "filter e_dead E = []" by (simp add: filter_empty_conv)
  from tick_parts [of rnd s]
  have res: "(g_bullets (tick rnd s), g_enemies (tick rnd s), g_score (tick rnd s)) =
       bulletsLoop B E (g_score s)"
    by (simp add: s1_def E_def B_def handleKeys_other)
  then have es: "g_enemies (tick rnd s) = fst (snd (bulletsLoop B E (g_score s)))"
    and sc: "g_score (tick rnd s) = snd (snd (bulletsLoop B E (g_score s)))"
    by (metis fst_conv snd_conv)+
  have len: "length (g_enemies (tick rnd s)) = length E"
    by (simp add: es bulletsLoop_length)
  have score: "g_score (tick rnd s) =
         g_score s + 10 * int (length (filter e_dead (g_enemies (tick rnd s))))"
    using bulletsLoop_score_dead [of B E "g_score s"] by (simp add: es sc none)
  have first: "(\<forall>e\<in>set E. \<not> e_dead e)
     \<and> length (g_enemies (tick rnd s)) = length E
     \<and> g_score (tick rnd s) =
         g_score s + 10 * int (length (filter e_dead (g_enemies (tick rnd s))))"
    using live len score by blast
  have nxt: "take (length (g_enemies t)) (g_enemies (spawnTimerStep rnd' t)) = g_enemies t
          \<and> filter e_dead (g_enemies (spawnTimerStep rnd' t)) = filter e_dead (g_enemies t)
          \<and> g_enemies (updateEnemies cam' rnd' t) =
              fst (enemiesLoop (eye0 cam') (eye2 cam')
                     (filter live (g_enemies (spawnTimerStep rnd' t))) (g_playerHealth t))
          \<and> length (g_enemies (updateEnemies cam' rnd' t)) +
              length (filter e_dead (g_enemies t)) = length (g_enemies (spawnTimerStep rnd' t))
          \<and> (\<forall>e\<in>set (g_enemies (updateEnemies cam' rnd' t)). \<not> e_dead e)"
    for cam' rnd' t
    using spawnTimerStep_appends [of t rnd'] updateEnemies_enemies [of cam' rnd' t]
      updateEnemies_drops_dead [of cam' rnd' t] updateEnemies_all_live [of cam' rnd' t]
    by blast
  show ?thesis
    unfolding Let_def s1_def [symmetric] E_def [symmetric]
    using first nxt by blast
qed

theorem dead_enemies_leave_next_update_witness:
  "g_enemies (tick (0, 0, 0)
      \<lparr> camera = new_Camera, g_keys = keys_none,
        g_bullets = [\<lparr> b_x = 19.48, b_y = 0.5, b_z = 16,
                       b_dx = 0.5, b_dy = 0, b_dz = 0, b_life = 70 \<rparr>],
        g_shootCooldown = 0,
        g_enemies = [\<lparr> e_x = 20, e_y = 0.5, e_z = 16, e_health = 1, e_scale = 0.6,
                       e_bobTime = - 0.08, e_dead = False \<rparr>],
        g_enemySpawnTimer = 0, g_playerHealth = 100, g_score = 0 \<rparr>)
     = [\<lparr> e_x = 19.98, e_y = 0.5, e_z = 16, e_health = 0, e_scale = 0.6,
          e_bobTime = 0, e_dead = True \<rparr>]
   \<and> g_score (tick (0, 0, 0)
      \<lparr> camera = new_Camera, g_keys = keys_none,
        g_bullets = [\<lparr> b_x = 19.48, b_y = 0.5, b_z = 16,
                       b_dx = 0.5, b_dy = 0, b_dz = 0, b_life = 70 \<rparr>],
        g_shootCooldown = 0,
        g_enemies = [\<lparr> e_x = 20, e_y = 0.5, e_z = 16, e_health = 1, e_scale = 0.6,
                       e_bobTime = - 0.08, e_dead = False \<rparr>],
        g_enemySpawnTimer = 0, g_playerHealth = 100, g_score = 0 \<rparr>) = 10
   \<and> g_enemies (updateEnemies new_Camera (0, 0, 0)
       (tick (0, 0, 0)
         \<lparr> camera = new_Camera, g_keys = keys_none,
           g_bullets = [\<lparr> b_x = 19.48, b_y = 0.5, b_z = 16,
                          b_dx = 0.5, b_dy = 0, b_dz = 0, b_life = 70 \<rparr>],
           g_shootCooldown = 0,
           g_enemies = [\<lparr> e_x = 20, e_y = 0.5, e_z = 16, e_health = 1, e_scale = 0.6,
                          e_bobTime = - 0.08, e_dead = False \<rparr>],
           g_enemySpawnTimer = 0, g_playerHealth = 100, g_score = 0 \<rparr>)) = []"
proof -
  let ?s = "\<lparr> camera = new_Camera, g_keys = keys_none,
        g_bullets = [\<lparr> b_x = 19.48, b_y = 0.5, b_z = 16,
                       b_dx = 0.5, b_dy = 0, b_dz = 0, b_life = 70 \<rparr>],
        g_shootCooldown = 0,
        g_enemies = [\<lparr> e_x = 20, e_y = 0.5, e_z = 16, e_health = 1, e_scale = 0.6,
                       e_bobTime = - 0.08, e_dead = False \<rparr>],
        g_enemySpawnTimer = 0, g_playerHealth = 100, g_score = 0 \<rparr>"
  let ?d = "\<lparr> e_x = 19.98, e_y = 0.5, e_z = 16, e_health = 0, e_scale = 0.6,
        e_bobTime = 0, e_dead = True \<rparr>"
  let ?t = "tick (0, 0, 0) ?s"
  have dead: "g_enemies ?t = [?d]"
    by (simp add: tick_unfold handleKeys_no_keys Let_def new_Camera_def applyGravity_def
      updateBullets_def advanceBullet_def updateEnemies_def spawnTimerStep_def
      ENEMY_SPAWN_RATE_def enemyStep_def sqrt_16 ENEMY_SPEED_def ENEMY_DAMAGE_DIST_def
      checkBulletHits_def inRange_def damage_def)
  have timer: "g_enemySpawnTimer ?t = 1"
    by (simp add: tick_unfold handleKeys_no_keys Let_def new_Camera_def applyGravity_def
      updateBullets_def advanceBullet_def updateEnemies_def spawnTimerStep_def
      ENEMY_SPAWN_RATE_def enemyStep_def sqrt_16 ENEMY_SPEED_def ENEMY_DAMAGE_DIST_def
      checkBulletHits_def inRange_def damage_def)
  have L: "g_enemies (spawnTimerStep (0, 0, 0) ?t) = g_enemies ?t"
    using timer by (intro spawnTimerStep_idle) (simp add: ENEMY_SPAWN_RATE_def)
  note inst = dead_enemies_leave_next_update [of ?s "(0, 0, 0)", unfolded Let_def]
  from inst have "g_score ?t = g_score ?s + 10 * int (length (filter e_dead (g_enemies ?t)))"
    by blast
  then have score: "g_score ?t = 10"
    unfolding dead by simp
  from inst have "length (g_enemies (updateEnemies new_Camera (0, 0, 0) ?t)) +
      length (filter e_dead (g_enemies ?t)) = length (g_enemies (spawnTimerStep (0, 0, 0) ?t))"
    by blast
  then have gone: "g_enemies (updateEnemies new_Camera (0, 0, 0) ?t) = []"
    unfolding L dead by simp
  from dead score gone show ?thesis by blast
qed

section \<open>Jumping\<close>

lemma applyGravity_grounded: "grounded c \<Longrightarrow> applyGravity c = c"
  by (simp add: applyGravity_def)

lemma applyGravity_pow_grounded: "grounded c \<Longrightarrow> (applyGravity ^^ k) c = c"
  by (induction k) (simp_all add: applyGravity_grounded)

lemma applyGravity_flight:
  "\<not> grounded c \<Longrightarrow> groundY c < eye1 c + (velY c - gravity c) \<Longrightarrow>
     applyGravity c = c\<lparr>velY := velY c - gravity c, eye1 := eye1 c + (velY c - gravity c)\<rparr>"
  by (simp add: applyGravity_def Let_def)

lemma applyGravity_land:
  "\<not> grounded c \<Longrightarrow> eye1 c + (velY c - gravity c) \<le> groundY c \<Longrightarrow>
     applyGravity c = c\<lparr>velY := 0, eye1 := groundY c, grounded := True\<rparr>"
  by (simp add: applyGravity_def Let_def)

text \<open>
  The height above the ground \<open>k\<close> frames after the jump, as long as the camera has not
  landed: \<open>jf * k - g * k * (k + 1) / 2\<close>.
\<close>

lemma flight:
  fixes c :: Camera and k :: nat
  assumes "grounded c"
    and "\<forall>j. 1 \<le> j \<and> j \<le> k \<longrightarrow>
           groundY c <
             eye1 c + (jumpForce c * real j - gravity c * real j * (real j + 1) / 2)"
  shows "(applyGravity ^^ k) (jump c) =
           c\<lparr>velY := jumpForce c - gravity c * real k,
             eye1 := eye1 c + (jumpForce c * real k - gravity c * real k * (real k + 1) / 2),
             grounded := False\<rparr>"
  using assms(2)
proof (induction k)
  case 0
  show ?case using assms(1) by (simp add: jump_def)
next
  case (Suc k)
  let ?ck = "c\<lparr>velY := jumpForce c - gravity c * real k,
             eye1 := eye1 c + (jumpForce c * real k - gravity c * real k * (real k + 1) / 2),
             grounded := False\<rparr>"
  have prev: "(applyGravity ^^ k) (jump c) = ?ck"
    using Suc.prems by (intro Suc.IH) auto
  have pos: "groundY c <
      eye1 c + (jumpForce c * real (Suc k) - gravity c * real (Suc k) * (real (Suc k) + 1) / 2)"
    using Suc.prems by auto
  have step: "eye1 ?ck + (velY ?ck - gravity ?ck) =
      eye1 c + (jumpForce c * real (Suc k) - gravity c * real (Suc k) * (real (Suc k) + 1) / 2)"
    by (simp add: algebra_simps)
  have gy: "groundY ?ck = groundY c" and ng: "\<not> grounded ?ck"
    by simp_all
  have gt: "groundY ?ck < eye1 ?ck + (velY ?ck - gravity ?ck)"
    unfolding step gy by (rule pos)
  have "applyGravity ?ck =
      ?ck\<lparr>velY := velY ?ck - gravity ?ck, eye1 := eye1 ?ck + (velY ?ck - gravity ?ck)\<rparr>"
    using ng gt by (rule applyGravity_flight)
  then show ?case
    unfolding funpow.simps comp_apply prev step by (simp add: algebra_simps)
qed

text \<open>
  Claim C8.  Take a grounded camera standing at \<open>groundY\<close> (wherever the code sets
  \<open>grounded\<close> it also sets \<open>eye[1]\<close> to \<open>groundY\<close>) with positive gravity, and let
  \<open>N = max 1 (\<lceil>2 * jumpForce / gravity\<rceil> - 1)\<close>, a function of the two constants alone.
  After \<open>jump()\<close>, the camera is in the air after each of the first \<open>N - 1\<close> calls of
  \<open>applyGravity()\<close>; the \<open>N\<close>-th call lands it: eye height \<open>groundY\<close>, vertical velocity
  0, \<open>grounded\<close> true, every other field as before the jump; and further calls change
  nothing.  For the constants of the constructor \<open>N\<close> is 29.
\<close>

theorem jump_lands:
  assumes "grounded c" and "eye1 c = groundY c" and "0 < gravity c"
  shows "(let N = max 1 (nat \<lceil>2 * jumpForce c / gravity c\<rceil> - 1)
          in (applyGravity ^^ N) (jump c) = c\<lparr>velY := 0\<rparr>
           \<and> eye1 ((applyGravity ^^ N) (jump c)) = groundY c
           \<and> velY ((applyGravity ^^ N) (jump c)) = 0
           \<and> grounded ((applyGravity ^^ N) (jump c))
           \<and> (\<forall>k<N. \<not> grounded ((applyGravity ^^ k) (jump c)))
           \<and> (\<forall>k\<ge>N. (applyGravity ^^ k) (jump c) = c\<lparr>velY := 0\<rparr>))"
proof -
  define jf where "jf = jumpForce c"
  define g where "g = gravity c"
  define N where "N = max 1 (nat \<lceil>2 * jf / g\<rceil> - 1)"
  define h where "h = (\<lambda>j::nat. jf * real j - g * real j * (real j + 1) / 2)"
  have gpos: "0 < g" using assms(3) by (simp add: g_def)
  have N1: "1 \<le> N" by (simp add: N_def)
  have up: "h j > 0" if "1 \<le> j" and "j < N" for j
  proof -
    from that have "int (j + 1) < \<lceil>2 * jf / g\<rceil>" unfolding N_def by arith
    then have "real (j + 1) < 2 * jf / g" by (simp add: less_ceiling_iff)
    with gpos have "g * (real j + 1) < 2 * jf" by (simp add: pos_less_divide_eq algebra_simps)
    then have "0 < jf - g * (real j + 1) / 2" by simp
    moreover have "0 < real j" using that by simp
    ultimately have "0 < real j * (jf - g * (real j + 1) / 2)" by (rule mult_pos_pos [rotated])
    then show ?thesis by (simp add: h_def algebra_simps)
  qed
  have down: "h N \<le> 0"
  proof -
    have "2 * jf / g \<le> real_of_int \<lceil>2 * jf / g\<rceil>" by (rule le_of_int_ceiling)
    also have "\<lceil>2 * jf / g\<rceil> \<le> int N + 1" unfolding N_def by arith
    finally have "2 * jf / g \<le> real N + 1" by simp
    with gpos have "2 * jf \<le> g * (real N + 1)" by (simp add: pos_divide_le_eq algebra_simps)
    then have "jf - g * (real N + 1) / 2 \<le> 0" by simp
    moreover have "0 \<le> real N" by simp
    ultimately have "real N * (jf - g * (real N + 1) / 2) \<le> 0"
      by (rule mult_nonneg_nonpos [rotated])
    then show ?thesis by (simp add: h_def algebra_simps)
  qed
  have fl: "(applyGravity ^^ k) (jump c) =
           c\<lparr>velY := jf - g * real k, eye1 := eye1 c + h k, grounded := False\<rparr>"
    if "k < N" for k
    unfolding jf_def g_def h_def
  proof (rule flight [OF assms(1)], intro allI impI)
    fix j assume "1 \<le> j \<and> j \<le> k"
    with that have "0 < h j" by (intro up) simp_all
    then show "groundY c <
        eye1 c + (jumpForce c * real j - gravity c * real j * (real j + 1) / 2)"
      by (simp add: h_def jf_def g_def assms(2))
  qed
  have air: "\<not> grounded ((applyGravity ^^ k) (jump c))" if "k < N" for k
    by (simp add: fl [OF that])
  obtain M where M: "N = Suc M" using N1 by (cases N) simp_all
  let ?cM = "c\<lparr>velY := jf - g * real M, eye1 := eye1 c + h M, grounded := False\<rparr>"
  have prev: "(applyGravity ^^ M) (jump c) = ?cM"
    by (rule fl) (simp add: M)
  have hstep: "eye1 ?cM + (velY ?cM - gravity ?cM) = eye1 c + h N"
    by (simp add: M h_def g_def algebra_simps)
  have "eye1 c + h N \<le> groundY c"
    using down by (simp add: assms(2))
  then have "eye1 ?cM + (velY ?cM - gravity ?cM) \<le> groundY ?cM"
    unfolding hstep by simp
  then have "applyGravity ?cM = ?cM\<lparr>velY := 0, eye1 := groundY ?cM, grounded := True\<rparr>"
    by (intro applyGravity_land) simp_all
  also have "\<dots> = c\<lparr>velY := 0\<rparr>"
    using assms(1,2) by simp
  finally have land: "(applyGravity ^^ N) (jump c) = c\<lparr>velY := 0\<rparr>"
    by (simp add: M prev)
  have stay: "(applyGravity ^^ k) (jump c) = c\<lparr>velY := 0\<rparr>" if "N \<le> k" for k
  proof -
    from that obtain d where "k = d + N" by (metis le_add_diff_inverse2)
    then have "(applyGravity ^^ k) (jump c) = (applyGravity ^^ d) ((applyGravity ^^ N) (jump c))"
      by (simp add: funpow_add)
    also have "\<dots> = c\<lparr>velY := 0\<rparr>"
      unfolding land using assms(1) by (intro applyGravity_pow_grounded) simp
    finally show ?thesis .
  qed
  show ?thesis
    unfolding Let_def jf_def [symmetric] g_def [symmetric] N_def [symmetric]
    using land air stay assms(1,2) by simp
qed

theorem jump_lands_witness:
  "(grounded new_Camera \<and> eye1 new_Camera = groundY new_Camera \<and> 0 < gravity new_Camera)
   \<and> (applyGravity ^^ 29) (jump new_Camera) = new_Camera
   \<and> \<not> grounded ((applyGravity ^^ 28) (jump new_Camera))"
proof -
  have h: "grounded new_Camera" "eye1 new_Camera = groundY new_Camera" "0 < gravity new_Camera"
    by (simp_all add: new_Camera_def)
  have N: "max 1 (nat \<lceil>2 * jumpForce new_Camera / gravity new_Camera\<rceil> - 1) = 29"
    by (simp add: new_Camera_def)
  have v: "new_Camera\<lparr>velY := 0\<rparr> = new_Camera"
    by (simp add: new_Camera_def)
  from jump_lands [OF h] show ?thesis
    unfolding Let_def N v using h by simp
qed

section \<open>The cube batch\<close>

lemma bakeCube_length: "length (bakeCube T d) = 180"
  by (simp add: bakeCube_def length_concat comp_def Let_def sum_list_triv)

lemma baked_length: "length (concat (map (bakeCube T) ds)) = 180 * length ds"
  by (induction ds) (simp_all add: bakeCube_length)

lemma build_Some:
  assumes "cubeData m = Some T"
  shows "build m ds tex b gl =
     Inr (b\<lparr>vbo := Some (gl_fresh gl), vertCount := length ds * 36, texNum := tex\<rparr>,
          gl\<lparr>gl_fresh := gl_fresh gl + 1,
             gl_calls := gl_calls gl @ (case vbo b of Some old \<Rightarrow> [DeleteBuffer old] | None \<Rightarrow> []) @
               [CreateBuffer (gl_fresh gl), BindBuffer (gl_fresh gl),
                BufferData (concat (map (bakeCube T) ds))]\<rparr>)"
  using assms by (simp add: build_def Let_def createBuffer_def gl_do_def split: option.splits)

lemma drawnVertices_drawCalls:
  "drawnVertices (drawCalls b) = (if vbo b = None \<or> vertCount b = 0 then [] else [vertCount b])"
  by (simp add: drawCalls_def Let_def split: option.splits)

lemma drawCalls_empty: "vertCount b = 0 \<Longrightarrow> drawCalls b = []"
  by (simp add: drawCalls_def split: option.splits)

text \<open>
  Claim C9.  Once \<open>initCubeBuffer\<close> has set the template \<open>_cubeData\<close>, \<open>build\<close> succeeds
  for every list of placements: the batch's \<open>vertCount\<close> is 36 times the length of the
  list, and the buffer it uploads holds 5 floats for each of these vertices.  \<open>draw\<close>
  then adds its calls to the context's log; among them is exactly one \<open>drawArrays\<close>, for
  \<open>36 * length\<close> vertices, when the list is not empty, and for the empty list \<open>draw\<close>
  makes no call at all.
\<close>

theorem batch_vertex_count:
  assumes "cubeData m = Some T"
  shows "case build m cubeDescs tex b gl of
           Inl err \<Rightarrow> False
         | Inr (b', gl') \<Rightarrow>
             vertCount b' = 36 * length cubeDescs
           \<and> last (gl_calls gl') = BufferData (concat (map (bakeCube T) cubeDescs))
           \<and> length (concat (map (bakeCube T) cubeDescs)) = 5 * vertCount b'
           \<and> gl_calls (draw b' gl') = gl_calls gl' @ drawCalls b'
           \<and> drawnVertices (drawCalls b') =
               (if cubeDescs = [] then [] else [36 * length cubeDescs])
           \<and> (cubeDescs = [] \<longrightarrow> draw b' gl' = gl')"
  by (simp add: build_Some [OF assms] baked_length draw_def gl_do_def
      drawnVertices_drawCalls drawCalls_empty)

theorem batch_vertex_count_witness:
  "cubeData (fst (initCubeBuffer \<lparr> cubeVBO = None, cubeData = None \<rparr>
                   \<lparr> gl_fresh = 0, gl_calls = [] \<rparr>)) = Some buildCubeVerts
   \<and> (case build (fst (initCubeBuffer \<lparr> cubeVBO = None, cubeData = None \<rparr>
                        \<lparr> gl_fresh = 0, gl_calls = [] \<rparr>))
              [\<lparr> tx = 0.5, ty = 0.5, tz = 0.5, sx = 1, sy = 1, sz = 1, d_texNum = 1 \<rparr>,
               \<lparr> tx = 0.5, ty = 1.5, tz = 0.5, sx = 1, sy = 1, sz = 1, d_texNum = 1 \<rparr>]
              1 new_CubeBatch
              (snd (initCubeBuffer \<lparr> cubeVBO = None, cubeData = None \<rparr>
                        \<lparr> gl_fresh = 0, gl_calls = [] \<rparr>)) of
         Inl err \<Rightarrow> False
       | Inr (b', gl') \<Rightarrow> vertCount b' = 72 \<and> drawnVertices (drawCalls b') = [72])
   \<and> (case build (fst (initCubeBuffer \<lparr> cubeVBO = None, cubeData = None \<rparr>
                        \<lparr> gl_fresh = 0, gl_calls = [] \<rparr>))
              [] 1 new_CubeBatch
              (snd (initCubeBuffer \<lparr> cubeVBO = None, cubeData = None \<rparr>
                        \<lparr> gl_fresh = 0, gl_calls = [] \<rparr>)) of
         Inl err \<Rightarrow> False
       | Inr (b', gl') \<Rightarrow> vertCount b' = 0 \<and> draw b' gl' = gl')"
proof -
  let ?m = "fst (initCubeBuffer \<lparr> cubeVBO = None, cubeData = None \<rparr>
                   \<lparr> gl_fresh = 0, gl_calls = [] \<rparr>)"
  have h: "cubeData ?m = Some buildCubeVerts"
    by (simp add: initCubeBuffer_def createBuffer_def)
  show ?thesis
    using h batch_vertex_count [OF h, of "[\<lparr> tx = 0.5, ty = 0.5, tz = 0.5, sx = 1, sy = 1, sz = 1, d_texNum = 1 \<rparr>,
               \<lparr> tx = 0.5, ty = 1.5, tz = 0.5, sx = 1, sy = 1, sz = 1, d_texNum = 1 \<rparr>]" 1
         new_CubeBatch "snd (initCubeBuffer \<lparr> cubeVBO = None, cubeData = None \<rparr>
                        \<lparr> gl_fresh = 0, gl_calls = [] \<rparr>)"]
      batch_vertex_count [OF h, of "[]" 1 new_CubeBatch "snd (initCubeBuffer \<lparr> cubeVBO = None, cubeData = None \<rparr>
                        \<lparr> gl_fresh = 0, gl_calls = [] \<rparr>)"]
    by (auto split: sum.splits)
qed

end
